theory Spec2Isabelle
  imports Main "HOL-Library.Sublist"
begin

section \<open>Python text\<close>

text \<open>
  A Python \<^verbatim>\<open>str\<close> is a sequence of Unicode code points; \<^verbatim>\<open>len\<close>, slicing and the
  offsets of a regular-expression match all count code points. A text is therefore a list
  of code points, and \<open>U\<close> reads an ASCII literal as such a list.
\<close>

type_synonym uchar = nat
type_synonym ustring = "nat list"

definition U :: "string \<Rightarrow> ustring" where
  "U s = map of_char s"

text \<open>
  \<^verbatim>\<open>str.isspace\<close>, \<^verbatim>\<open>str.strip\<close>, \<^verbatim>\<open>str.split\<close> and the class \<^verbatim>\<open>\s\<close> of a \<^verbatim>\<open>str\<close> pattern
  share one table of white space, which is small enough to write out in full.
\<close>

definition is_space :: "uchar \<Rightarrow> bool" where
  "is_space c = ((9 \<le> c \<and> c \<le> 13) \<or> (28 \<le> c \<and> c \<le> 32) \<or> c = 133 \<or> c = 160
     \<or> c = 5760 \<or> (8192 \<le> c \<and> c \<le> 8202) \<or> c = 8232 \<or> c = 8233 \<or> c = 8239
     \<or> c = 8287 \<or> c = 12288)"

text \<open>
  The classes \<^verbatim>\<open>\d\<close> and \<^verbatim>\<open>\w\<close> of a \<^verbatim>\<open>str\<close> pattern are Unicode-aware: \<^verbatim>\<open>\d\<close> is a decimal
  digit (\<^verbatim>\<open>str.isdecimal\<close>), \<^verbatim>\<open>\w\<close> is an alphanumeric character (\<^verbatim>\<open>str.isalnum\<close>) or the
  underscore. Their tables are those of Unicode 14.0.0, which CPython 3.11 carries, as
  ranges of code points in ascending order; the ASCII rows are tested first.
\<close>

fun in_ranges :: "nat \<Rightarrow> (nat \<times> nat) list \<Rightarrow> bool" where
  "in_ranges c [] = False"
| "in_ranges c ((a, b) # rs) = (if c < a then False else if c \<le> b then True else in_ranges c rs)"

definition decimal_above_ascii :: "(nat \<times> nat) list" where
  "decimal_above_ascii =
    [(1632, 1641), (1776, 1785), (1984, 1993), (2406, 2415), (2534, 2543), (2662, 2671),
     (2790, 2799), (2918, 2927), (3046, 3055), (3174, 3183), (3302, 3311), (3430, 3439),
     (3558, 3567), (3664, 3673), (3792, 3801), (3872, 3881), (4160, 4169), (4240, 4249),
     (6112, 6121), (6160, 6169), (6470, 6479), (6608, 6617), (6784, 6793), (6800, 6809),
     (6992, 7001), (7088, 7097), (7232, 7241), (7248, 7257), (42528, 42537), (43216, 43225),
     (43264, 43273), (43472, 43481), (43504, 43513), (43600, 43609), (44016, 44025),
     (65296, 65305), (66720, 66729), (68912, 68921), (69734, 69743), (69872, 69881),
     (69942, 69951), (70096, 70105), (70384, 70393), (70736, 70745), (70864, 70873),
     (71248, 71257), (71360, 71369), (71472, 71481), (71904, 71913), (72016, 72025),
     (72784, 72793), (73040, 73049), (73120, 73129), (92768, 92777), (92864, 92873),
     (93008, 93017), (120782, 120831), (123200, 123209), (123632, 123641), (125264, 125273),
     (130032, 130041)]"

definition alnum_above_ascii :: "(nat \<times> nat) list" where
  "alnum_above_ascii =
    [(170, 170), (178, 179), (181, 181), (185, 186), (188, 190), (192, 214), (216, 246),
     (248, 705), (710, 721), (736, 740), (748, 748), (750, 750), (880, 884), (886, 887),
     (890, 893), (895, 895), (902, 902), (904, 906), (908, 908), (910, 929), (931, 1013),
     (1015, 1153), (1162, 1327), (1329, 1366), (1369, 1369), (1376, 1416), (1488, 1514),
     (1519, 1522), (1568, 1610), (1632, 1641), (1646, 1647), (1649, 1747), (1749, 1749),
     (1765, 1766), (1774, 1788), (1791, 1791), (1808, 1808), (1810, 1839), (1869, 1957),
     (1969, 1969), (1984, 2026), (2036, 2037), (2042, 2042), (2048, 2069), (2074, 2074),
     (2084, 2084), (2088, 2088), (2112, 2136), (2144, 2154), (2160, 2183), (2185, 2190),
     (2208, 2249), (2308, 2361), (2365, 2365), (2384, 2384), (2392, 2401), (2406, 2415),
     (2417, 2432), (2437, 2444), (2447, 2448), (2451, 2472), (2474, 2480), (2482, 2482),
     (2486, 2489), (2493, 2493), (2510, 2510), (2524, 2525), (2527, 2529), (2534, 2545),
     (2548, 2553), (2556, 2556), (2565, 2570), (2575, 2576), (2579, 2600), (2602, 2608),
     (2610, 2611), (2613, 2614), (2616, 2617), (2649, 2652), (2654, 2654), (2662, 2671),
     (2674, 2676), (2693, 2701), (2703, 2705), (2707, 2728), (2730, 2736), (2738, 2739),
     (2741, 2745), (2749, 2749), (2768, 2768), (2784, 2785), (2790, 2799), (2809, 2809),
     (2821, 2828), (2831, 2832), (2835, 2856), (2858, 2864), (2866, 2867), (2869, 2873),
     (2877, 2877), (2908, 2909), (2911, 2913), (2918, 2927), (2929, 2935), (2947, 2947),
     (2949, 2954), (2958, 2960), (2962, 2965), (2969, 2970), (2972, 2972), (2974, 2975),
     (2979, 2980), (2984, 2986), (2990, 3001), (3024, 3024), (3046, 3058), (3077, 3084),
     (3086, 3088), (3090, 3112), (3114, 3129), (3133, 3133), (3160, 3162), (3165, 3165),
     (3168, 3169), (3174, 3183), (3192, 3198), (3200, 3200), (3205, 3212), (3214, 3216),
     (3218, 3240), (3242, 3251), (3253, 3257), (3261, 3261), (3293, 3294), (3296, 3297),
     (3302, 3311), (3313, 3314), (3332, 3340), (3342, 3344), (3346, 3386), (3389, 3389),
     (3406, 3406), (3412, 3414), (3416, 3425), (3430, 3448), (3450, 3455), (3461, 3478),
     (3482, 3505), (3507, 3515), (3517, 3517), (3520, 3526), (3558, 3567), (3585, 3632),
     (3634, 3635), (3648, 3654), (3664, 3673), (3713, 3714), (3716, 3716), (3718, 3722),
     (3724, 3747), (3749, 3749), (3751, 3760), (3762, 3763), (3773, 3773), (3776, 3780),
     (3782, 3782), (3792, 3801), (3804, 3807), (3840, 3840), (3872, 3891), (3904, 3911),
     (3913, 3948), (3976, 3980), (4096, 4138), (4159, 4169), (4176, 4181), (4186, 4189),
     (4193, 4193), (4197, 4198), (4206, 4208), (4213, 4225), (4238, 4238), (4240, 4249),
     (4256, 4293), (4295, 4295), (4301, 4301), (4304, 4346), (4348, 4680), (4682, 4685),
     (4688, 4694), (4696, 4696), (4698, 4701), (4704, 4744), (4746, 4749), (4752, 4784),
     (4786, 4789), (4792, 4798), (4800, 4800), (4802, 4805), (4808, 4822), (4824, 4880),
     (4882, 4885), (4888, 4954), (4969, 4988), (4992, 5007), (5024, 5109), (5112, 5117),
     (5121, 5740), (5743, 5759), (5761, 5786), (5792, 5866), (5870, 5880), (5888, 5905),
     (5919, 5937), (5952, 5969), (5984, 5996), (5998, 6000), (6016, 6067), (6103, 6103),
     (6108, 6108), (6112, 6121), (6128, 6137), (6160, 6169), (6176, 6264), (6272, 6276),
     (6279, 6312), (6314, 6314), (6320, 6389), (6400, 6430), (6470, 6509), (6512, 6516),
     (6528, 6571), (6576, 6601), (6608, 6618), (6656, 6678), (6688, 6740), (6784, 6793),
     (6800, 6809), (6823, 6823), (6917, 6963), (6981, 6988), (6992, 7001), (7043, 7072),
     (7086, 7141), (7168, 7203), (7232, 7241), (7245, 7293), (7296, 7304), (7312, 7354),
     (7357, 7359), (7401, 7404), (7406, 7411), (7413, 7414), (7418, 7418), (7424, 7615),
     (7680, 7957), (7960, 7965), (7968, 8005), (8008, 8013), (8016, 8023), (8025, 8025),
     (8027, 8027), (8029, 8029), (8031, 8061), (8064, 8116), (8118, 8124), (8126, 8126),
     (8130, 8132), (8134, 8140), (8144, 8147), (8150, 8155), (8160, 8172), (8178, 8180),
     (8182, 8188), (8304, 8305), (8308, 8313), (8319, 8329), (8336, 8348), (8450, 8450),
     (8455, 8455), (8458, 8467), (8469, 8469), (8473, 8477), (8484, 8484), (8486, 8486),
     (8488, 8488), (8490, 8493), (8495, 8505), (8508, 8511), (8517, 8521), (8526, 8526),
     (8528, 8585), (9312, 9371), (9450, 9471), (10102, 10131), (11264, 11492), (11499, 11502),
     (11506, 11507), (11517, 11517), (11520, 11557), (11559, 11559), (11565, 11565),
     (11568, 11623), (11631, 11631), (11648, 11670), (11680, 11686), (11688, 11694),
     (11696, 11702), (11704, 11710), (11712, 11718), (11720, 11726), (11728, 11734),
     (11736, 11742), (11823, 11823), (12293, 12295), (12321, 12329), (12337, 12341),
     (12344, 12348), (12353, 12438), (12445, 12447), (12449, 12538), (12540, 12543),
     (12549, 12591), (12593, 12686), (12690, 12693), (12704, 12735), (12784, 12799),
     (12832, 12841), (12872, 12879), (12881, 12895), (12928, 12937), (12977, 12991),
     (13312, 19903), (19968, 42124), (42192, 42237), (42240, 42508), (42512, 42539),
     (42560, 42606), (42623, 42653), (42656, 42735), (42775, 42783), (42786, 42888),
     (42891, 42954), (42960, 42961), (42963, 42963), (42965, 42969), (42994, 43009),
     (43011, 43013), (43015, 43018), (43020, 43042), (43056, 43061), (43072, 43123),
     (43138, 43187), (43216, 43225), (43250, 43255), (43259, 43259), (43261, 43262),
     (43264, 43301), (43312, 43334), (43360, 43388), (43396, 43442), (43471, 43481),
     (43488, 43492), (43494, 43518), (43520, 43560), (43584, 43586), (43588, 43595),
     (43600, 43609), (43616, 43638), (43642, 43642), (43646, 43695), (43697, 43697),
     (43701, 43702), (43705, 43709), (43712, 43712), (43714, 43714), (43739, 43741),
     (43744, 43754), (43762, 43764), (43777, 43782), (43785, 43790), (43793, 43798),
     (43808, 43814), (43816, 43822), (43824, 43866), (43868, 43881), (43888, 44002),
     (44016, 44025), (44032, 55203), (55216, 55238), (55243, 55291), (63744, 64109),
     (64112, 64217), (64256, 64262), (64275, 64279), (64285, 64285), (64287, 64296),
     (64298, 64310), (64312, 64316), (64318, 64318), (64320, 64321), (64323, 64324),
     (64326, 64433), (64467, 64829), (64848, 64911), (64914, 64967), (65008, 65019),
     (65136, 65140), (65142, 65276), (65296, 65305), (65313, 65338), (65345, 65370),
     (65382, 65470), (65474, 65479), (65482, 65487), (65490, 65495), (65498, 65500),
     (65536, 65547), (65549, 65574), (65576, 65594), (65596, 65597), (65599, 65613),
     (65616, 65629), (65664, 65786), (65799, 65843), (65856, 65912), (65930, 65931),
     (66176, 66204), (66208, 66256), (66273, 66299), (66304, 66339), (66349, 66378),
     (66384, 66421), (66432, 66461), (66464, 66499), (66504, 66511), (66513, 66517),
     (66560, 66717), (66720, 66729), (66736, 66771), (66776, 66811), (66816, 66855),
     (66864, 66915), (66928, 66938), (66940, 66954), (66956, 66962), (66964, 66965),
     (66967, 66977), (66979, 66993), (66995, 67001), (67003, 67004), (67072, 67382),
     (67392, 67413), (67424, 67431), (67456, 67461), (67463, 67504), (67506, 67514),
     (67584, 67589), (67592, 67592), (67594, 67637), (67639, 67640), (67644, 67644),
     (67647, 67669), (67672, 67702), (67705, 67742), (67751, 67759), (67808, 67826),
     (67828, 67829), (67835, 67867), (67872, 67897), (67968, 68023), (68028, 68047),
     (68050, 68096), (68112, 68115), (68117, 68119), (68121, 68149), (68160, 68168),
     (68192, 68222), (68224, 68255), (68288, 68295), (68297, 68324), (68331, 68335),
     (68352, 68405), (68416, 68437), (68440, 68466), (68472, 68497), (68521, 68527),
     (68608, 68680), (68736, 68786), (68800, 68850), (68858, 68899), (68912, 68921),
     (69216, 69246), (69248, 69289), (69296, 69297), (69376, 69415), (69424, 69445),
     (69457, 69460), (69488, 69505), (69552, 69579), (69600, 69622), (69635, 69687),
     (69714, 69743), (69745, 69746), (69749, 69749), (69763, 69807), (69840, 69864),
     (69872, 69881), (69891, 69926), (69942, 69951), (69956, 69956), (69959, 69959),
     (69968, 70002), (70006, 70006), (70019, 70066), (70081, 70084), (70096, 70106),
     (70108, 70108), (70113, 70132), (70144, 70161), (70163, 70187), (70272, 70278),
     (70280, 70280), (70282, 70285), (70287, 70301), (70303, 70312), (70320, 70366),
     (70384, 70393), (70405, 70412), (70415, 70416), (70419, 70440), (70442, 70448),
     (70450, 70451), (70453, 70457), (70461, 70461), (70480, 70480), (70493, 70497),
     (70656, 70708), (70727, 70730), (70736, 70745), (70751, 70753), (70784, 70831),
     (70852, 70853), (70855, 70855), (70864, 70873), (71040, 71086), (71128, 71131),
     (71168, 71215), (71236, 71236), (71248, 71257), (71296, 71338), (71352, 71352),
     (71360, 71369), (71424, 71450), (71472, 71483), (71488, 71494), (71680, 71723),
     (71840, 71922), (71935, 71942), (71945, 71945), (71948, 71955), (71957, 71958),
     (71960, 71983), (71999, 71999), (72001, 72001), (72016, 72025), (72096, 72103),
     (72106, 72144), (72161, 72161), (72163, 72163), (72192, 72192), (72203, 72242),
     (72250, 72250), (72272, 72272), (72284, 72329), (72349, 72349), (72368, 72440),
     (72704, 72712), (72714, 72750), (72768, 72768), (72784, 72812), (72818, 72847),
     (72960, 72966), (72968, 72969), (72971, 73008), (73030, 73030), (73040, 73049),
     (73056, 73061), (73063, 73064), (73066, 73097), (73112, 73112), (73120, 73129),
     (73440, 73458), (73648, 73648), (73664, 73684), (73728, 74649), (74752, 74862),
     (74880, 75075), (77712, 77808), (77824, 78894), (82944, 83526), (92160, 92728),
     (92736, 92766), (92768, 92777), (92784, 92862), (92864, 92873), (92880, 92909),
     (92928, 92975), (92992, 92995), (93008, 93017), (93019, 93025), (93027, 93047),
     (93053, 93071), (93760, 93846), (93952, 94026), (94032, 94032), (94099, 94111),
     (94176, 94177), (94179, 94179), (94208, 100343), (100352, 101589), (101632, 101640),
     (110576, 110579), (110581, 110587), (110589, 110590), (110592, 110882), (110928, 110930),
     (110948, 110951), (110960, 111355), (113664, 113770), (113776, 113788), (113792, 113800),
     (113808, 113817), (119520, 119539), (119648, 119672), (119808, 119892), (119894, 119964),
     (119966, 119967), (119970, 119970), (119973, 119974), (119977, 119980), (119982, 119993),
     (119995, 119995), (119997, 120003), (120005, 120069), (120071, 120074), (120077, 120084),
     (120086, 120092), (120094, 120121), (120123, 120126), (120128, 120132), (120134, 120134),
     (120138, 120144), (120146, 120485), (120488, 120512), (120514, 120538), (120540, 120570),
     (120572, 120596), (120598, 120628), (120630, 120654), (120656, 120686), (120688, 120712),
     (120714, 120744), (120746, 120770), (120772, 120779), (120782, 120831), (122624, 122654),
     (123136, 123180), (123191, 123197), (123200, 123209), (123214, 123214), (123536, 123565),
     (123584, 123627), (123632, 123641), (124896, 124902), (124904, 124907), (124909, 124910),
     (124912, 124926), (124928, 125124), (125127, 125135), (125184, 125251), (125259, 125259),
     (125264, 125273), (126065, 126123), (126125, 126127), (126129, 126132), (126209, 126253),
     (126255, 126269), (126464, 126467), (126469, 126495), (126497, 126498), (126500, 126500),
     (126503, 126503), (126505, 126514), (126516, 126519), (126521, 126521), (126523, 126523),
     (126530, 126530), (126535, 126535), (126537, 126537), (126539, 126539), (126541, 126543),
     (126545, 126546), (126548, 126548), (126551, 126551), (126553, 126553), (126555, 126555),
     (126557, 126557), (126559, 126559), (126561, 126562), (126564, 126564), (126567, 126570),
     (126572, 126578), (126580, 126583), (126585, 126588), (126590, 126590), (126592, 126601),
     (126603, 126619), (126625, 126627), (126629, 126633), (126635, 126651), (127232, 127244),
     (130032, 130041), (131072, 173791), (173824, 177976), (177984, 178205), (178208, 183969),
     (183984, 191456), (194560, 195101), (196608, 201546)]"

definition is_ascii_digit :: "uchar \<Rightarrow> bool" where
  "is_ascii_digit c = (48 \<le> c \<and> c \<le> 57)"

definition is_digit :: "uchar \<Rightarrow> bool" where
  "is_digit c = (if c < 128 then is_ascii_digit c else in_ranges c decimal_above_ascii)"

definition is_upper_az :: "uchar \<Rightarrow> bool" where
  "is_upper_az c = (65 \<le> c \<and> c \<le> 90)"

definition is_lower_az :: "uchar \<Rightarrow> bool" where
  "is_lower_az c = (97 \<le> c \<and> c \<le> 122)"

definition is_alnum :: "uchar \<Rightarrow> bool" where
  "is_alnum c =
     (if c < 128 then is_ascii_digit c \<or> is_upper_az c \<or> is_lower_az c
      else in_ranges c alnum_above_ascii)"

definition is_word :: "uchar \<Rightarrow> bool" where
  "is_word c = (is_alnum c \<or> c = 95)"

text \<open>
  Under \<^verbatim>\<open>re.IGNORECASE\<close> the ranges \<^verbatim>\<open>[A-Z]\<close> and \<^verbatim>\<open>[a-z]\<close> of a \<^verbatim>\<open>str\<close> pattern match the
  52 ASCII letters and four further letters (U+0130, U+0131, U+017F, U+212A); a literal
  letter matches both of its cases and the further letters that fold to it.
\<close>

definition ci_letter :: "uchar \<Rightarrow> bool" where
  "ci_letter c = (is_upper_az c \<or> is_lower_az c \<or> c = 304 \<or> c = 305 \<or> c = 383 \<or> c = 8490)"

definition ci_lit :: "uchar \<Rightarrow> uchar \<Rightarrow> bool" where
  "ci_lit l c = (c = l \<or> (is_lower_az l \<and> c + 32 = l) \<or> (is_upper_az l \<and> c = l + 32)
     \<or> ((l = 73 \<or> l = 105) \<and> (c = 304 \<or> c = 305))
     \<or> ((l = 83 \<or> l = 115) \<and> c = 383)
     \<or> ((l = 75 \<or> l = 107) \<and> c = 8490))"

subsection \<open>String operations\<close>

text \<open>\<^verbatim>\<open>s.strip()\<close>: white space removed at both ends.\<close>

definition py_strip :: "ustring \<Rightarrow> ustring" where
  "py_strip s = rev (dropWhile is_space (rev (dropWhile is_space s)))"

text \<open>\<^verbatim>\<open>sep.join(xs)\<close>.\<close>

fun py_join :: "ustring \<Rightarrow> ustring list \<Rightarrow> ustring" where
  "py_join sep [] = []"
| "py_join sep [x] = x"
| "py_join sep (x # y # ys) = x @ sep @ py_join sep (y # ys)"

text \<open>\<^verbatim>\<open>old in s\<close>: \<open>old\<close> occurs in \<open>s\<close> as a contiguous substring.\<close>

fun py_in :: "ustring \<Rightarrow> ustring \<Rightarrow> bool" where
  "py_in old [] = (old = [])"
| "py_in old (c # cs) = (prefix old (c # cs) \<or> py_in old cs)"

text \<open>
  \<^verbatim>\<open>s.replace(old, new)\<close>: every occurrence of \<open>old\<close>, found from the left and without
  overlap, is replaced. An empty \<open>old\<close> matches before every character and at the end.
\<close>

function py_replace :: "ustring \<Rightarrow> ustring \<Rightarrow> ustring \<Rightarrow> ustring" where
  "py_replace s old new =
     (if old = [] then new @ concat (map (\<lambda>c. c # new) s)
      else if s = [] then []
      else if prefix old s then new @ py_replace (drop (length old) s) old new
      else hd s # py_replace (tl s) old new)"
  by pat_completeness auto
termination
  by (relation "measure (\<lambda>(s, old, new). length s)") auto

declare py_replace.simps [simp del]

text \<open>\<^verbatim>\<open>str(n)\<close> of a non-negative integer: its decimal digits.\<close>

function str_nat :: "nat \<Rightarrow> ustring" where
  "str_nat n = (if n < 10 then [48 + n] else str_nat (n div 10) @ [48 + n mod 10])"
  by pat_completeness auto
termination
  by (relation "measure (\<lambda>n. n)") auto

declare str_nat.simps [simp del]

text \<open>
  A \<^verbatim>\<open>dict\<close> keeps its keys in insertion order, and the program iterates over
  \<^verbatim>\<open>items()\<close>: an association list, in which an assignment to a key that is present
  replaces the value where the key stands and a new key goes to the end.
\<close>

fun dict_set :: "('k \<times> 'v) list \<Rightarrow> 'k \<Rightarrow> 'v \<Rightarrow> ('k \<times> 'v) list" where
  "dict_set [] k v = [(k, v)]"
| "dict_set ((k', v') # d) k v = (if k' = k then (k, v) # d else (k', v') # dict_set d k v)"

section \<open>Regular expressions\<close>

text \<open>
  The module \<^verbatim>\<open>re\<close> matches by backtracking: at a position the alternatives are tried in
  a fixed order of priority and the first that lets the whole pattern match is taken. The
  matcher \<open>m\<close> lists, in that order, every way a pattern matches from a cursor. A cursor
  is a position in the text: the character before it (for \<^verbatim>\<open>\b\<close> and a look-behind), the
  text from it on, its offset, and the capture groups set so far. Only the constructs the
  program's patterns use are present.
\<close>

type_synonym caps = "(nat \<times> nat \<times> nat) list"
type_synonym cursor = "uchar option \<times> ustring \<times> nat \<times> caps"

datatype regex =
    Eps
  | Chr "uchar \<Rightarrow> bool"
  | Seq regex regex
  | Alt regex regex
  | Star regex
  | LazyStar regex
  | Group nat regex
  | WordB
  | LookBehind "uchar \<Rightarrow> bool"

fun c_rest :: "cursor \<Rightarrow> ustring" where
  "c_rest (prev, cs, i, c) = cs"

fun c_pos :: "cursor \<Rightarrow> nat" where
  "c_pos (prev, cs, i, c) = i"

fun c_caps :: "cursor \<Rightarrow> caps" where
  "c_caps (prev, cs, i, c) = c"

fun word_before :: "cursor \<Rightarrow> bool" where
  "word_before (None, cs, i, c) = False"
| "word_before (Some p, cs, i, c) = is_word p"

fun word_after :: "cursor \<Rightarrow> bool" where
  "word_after (prev, [], i, c) = False"
| "word_after (prev, x # xs, i, c) = is_word x"

fun step_chr :: "(uchar \<Rightarrow> bool) \<Rightarrow> cursor \<Rightarrow> cursor list" where
  "step_chr P (prev, [], i, c) = []"
| "step_chr P (prev, x # xs, i, c) = (if P x then [(Some x, xs, Suc i, c)] else [])"

fun look_behind :: "(uchar \<Rightarrow> bool) \<Rightarrow> cursor \<Rightarrow> cursor list" where
  "look_behind P (None, cs, i, c) = []"
| "look_behind P (Some p, cs, i, c) = (if P p then [(Some p, cs, i, c)] else [])"

fun set_group :: "nat \<Rightarrow> nat \<Rightarrow> cursor \<Rightarrow> cursor" where
  "set_group n i (prev, cs, j, c) = (prev, cs, j, (n, i, j) # c)"

text \<open>An iteration of a repetition counts only if it has consumed text.\<close>

definition advanced :: "cursor \<Rightarrow> cursor \<Rightarrow> bool" where
  "advanced cur cur' = (length (c_rest cur') < length (c_rest cur))"

function m :: "regex \<Rightarrow> cursor \<Rightarrow> cursor list" where
  "m Eps cur = [cur]"
| "m (Chr P) cur = step_chr P cur"
| "m (Seq a b) cur = concat (map (m b) (m a cur))"
| "m (Alt a b) cur = m a cur @ m b cur"
| "m (Star a) cur = concat (map (m (Star a)) (filter (advanced cur) (m a cur))) @ [cur]"
| "m (LazyStar a) cur = cur # concat (map (m (LazyStar a)) (filter (advanced cur) (m a cur)))"
| "m (Group n a) cur = map (set_group n (c_pos cur)) (m a cur)"
| "m WordB cur = (if word_before cur \<noteq> word_after cur then [cur] else [])"
| "m (LookBehind P) cur = look_behind P cur"
  by pat_completeness auto
termination
  by (relation "inv_image (less_than <*lex*> less_than) (\<lambda>(r, cur). (size r, length (c_rest cur)))")
    (auto simp: advanced_def)

text \<open>\<^verbatim>\<open>x+\<close>, \<^verbatim>\<open>x+?\<close>, \<^verbatim>\<open>x{2,}\<close>, a sequence of patterns and a literal string.\<close>

definition Plus :: "regex \<Rightarrow> regex" where
  "Plus r = Seq r (Star r)"

definition LazyPlus :: "regex \<Rightarrow> regex" where
  "LazyPlus r = Seq r (LazyStar r)"

definition AtLeast2 :: "regex \<Rightarrow> regex" where
  "AtLeast2 r = Seq r (Seq r (Star r))"

fun seqs :: "regex list \<Rightarrow> regex" where
  "seqs [] = Eps"
| "seqs [r] = r"
| "seqs (r # rs) = Seq r (seqs rs)"

fun alts :: "regex list \<Rightarrow> regex" where
  "alts [] = Eps"
| "alts [r] = r"
| "alts (r # rs) = Alt r (alts rs)"

definition Lit :: "ustring \<Rightarrow> regex" where
  "Lit cs = seqs (map (\<lambda>l. Chr (\<lambda>c. c = l)) cs)"

definition LitI :: "ustring \<Rightarrow> regex" where
  "LitI cs = seqs (map (\<lambda>l. Chr (ci_lit l)) cs)"

text \<open>
  \<^verbatim>\<open>re.finditer\<close>: the matches from the left, each search starting where the last match
  ended. A match is (start, end, groups). After an empty match the next search starts at
  the same position, where it must not be empty again.
\<close>

fun next_char :: "cursor \<Rightarrow> cursor option" where
  "next_char (prev, [], i, c) = None"
| "next_char (prev, x # xs, i, c) = Some (Some x, xs, Suc i, c)"

fun clear_caps :: "cursor \<Rightarrow> cursor" where
  "clear_caps (prev, cs, i, c) = (prev, cs, i, [])"

function scan :: "regex \<Rightarrow> cursor \<Rightarrow> bool \<Rightarrow> (nat \<times> nat \<times> caps) list" where
  "scan r cur must_advance =
     (case List.find (\<lambda>cur'. \<not> must_advance \<or> advanced cur cur') (m r cur) of
        None \<Rightarrow> (case next_char cur of None \<Rightarrow> [] | Some cur' \<Rightarrow> scan r cur' False)
      | Some cur' \<Rightarrow>
          (c_pos cur, c_pos cur', c_caps cur') #
          (if advanced cur cur' then scan r (clear_caps cur') False
           else if must_advance then []
           else scan r cur True))"
  by pat_completeness auto
termination
  by (relation "measure (\<lambda>(r, cur, adv). 2 * length (c_rest cur) + (if adv then 0 else 1))")
    (auto simp: advanced_def elim!: next_char.elims)

declare scan.simps [simp del]

definition finditer :: "regex \<Rightarrow> ustring \<Rightarrow> (nat \<times> nat \<times> caps) list" where
  "finditer r s = scan r (None, s, 0, []) False"

text \<open>\<^verbatim>\<open>re.search\<close>: the first match, or \<^verbatim>\<open>None\<close>.\<close>

definition re_search :: "regex \<Rightarrow> ustring \<Rightarrow> (nat \<times> nat \<times> caps) option" where
  "re_search r s = (case finditer r s of [] \<Rightarrow> None | x # _ \<Rightarrow> Some x)"

text \<open>\<^verbatim>\<open>s[a:b]\<close> and \<^verbatim>\<open>match.group(n)\<close>.\<close>

definition slice :: "ustring \<Rightarrow> nat \<Rightarrow> nat \<Rightarrow> ustring" where
  "slice s a b = take (b - a) (drop a s)"

definition group :: "ustring \<Rightarrow> caps \<Rightarrow> nat \<Rightarrow> ustring option" where
  "group s c n = (case map_of c n of None \<Rightarrow> None | Some (a, b) \<Rightarrow> Some (slice s a b))"

text \<open>
  \<^verbatim>\<open>re.split\<close> for a pattern without capture groups: the pieces of the text between the
  matches.
\<close>

fun pieces :: "ustring \<Rightarrow> nat \<Rightarrow> (nat \<times> nat \<times> caps) list \<Rightarrow> ustring list" where
  "pieces s from [] = [drop from s]"
| "pieces s from ((a, b, c) # ms) = slice s from a # pieces s b ms"

definition re_split :: "regex \<Rightarrow> ustring \<Rightarrow> ustring list" where
  "re_split r s = pieces s 0 (finditer r s)"

text \<open>
  A stable sort by descending key, \<^verbatim>\<open>xs.sort(key=f, reverse=True)\<close>: elements of equal key
  keep their order.
\<close>

definition sort_desc :: "('a \<Rightarrow> nat) \<Rightarrow> 'a list \<Rightarrow> 'a list" where
  "sort_desc f xs = rev (sort_key f (rev xs))"

section \<open>The entity protector of the web application\<close>

text \<open>\<^verbatim>\<open>self.preserve_patterns\<close> of \<^verbatim>\<open>webapp/pdf_translator.py\<close>, compiled with \<^verbatim>\<open>re.IGNORECASE\<close>.\<close>

definition email_local :: "uchar \<Rightarrow> bool" where
  "email_local c =
     (ci_letter c \<or> is_ascii_digit c \<or> c = 46 \<or> c = 95 \<or> c = 37 \<or> c = 43 \<or> c = 45)"

definition email_domain :: "uchar \<Rightarrow> bool" where
  "email_domain c = (ci_letter c \<or> is_ascii_digit c \<or> c = 46 \<or> c = 45)"

definition email_tld :: "uchar \<Rightarrow> bool" where
  "email_tld c = (ci_letter c \<or> c = 124)"

definition pattern_person :: regex where
  "pattern_person = seqs [WordB, Chr ci_letter, AtLeast2 (Chr ci_letter), Chr (\<lambda>c. c = 32),
     Chr ci_letter, AtLeast2 (Chr ci_letter), WordB]"

definition pattern_email :: regex where
  "pattern_email = seqs [WordB, Plus (Chr email_local), Chr (\<lambda>c. c = 64),
     Plus (Chr email_domain), Chr (\<lambda>c. c = 46), AtLeast2 (Chr email_tld), WordB]"

definition pattern_company :: regex where
  "pattern_company = seqs [WordB, Chr ci_letter, Plus (Chr ci_letter),
     Star (seqs [Chr is_space, Chr ci_letter, Plus (Chr ci_letter)]),
     Chr is_space,
     alts [LitI (U ''Inc''), LitI (U ''Ltd''), LitI (U ''LLC''), LitI (U ''Corp''),
       LitI (U ''Company''), LitI (U ''University''), LitI (U ''College'')],
     WordB]"

definition preserve_patterns :: "regex list" where
  "preserve_patterns = [pattern_person, pattern_email, pattern_company]"

text \<open>An entry of \<^verbatim>\<open>all_matches\<close>: the dictionary with the keys text, start and end.\<close>

record span =
  sp_text :: ustring
  sp_start :: nat
  sp_end :: nat

definition overlaps :: "nat \<Rightarrow> nat \<Rightarrow> span \<Rightarrow> bool" where
  "overlaps a b e = (a < sp_end e \<and> sp_start e < b)"

definition add_match :: "ustring \<Rightarrow> span list \<Rightarrow> nat \<times> nat \<times> caps \<Rightarrow> span list" where
  "add_match text all_matches mt =
     (case mt of (a, b, c) \<Rightarrow>
        if list_ex (overlaps a b) all_matches then all_matches
        else all_matches @ [\<lparr>sp_text = slice text a b, sp_start = a, sp_end = b\<rparr>])"

definition collect_matches :: "regex list \<Rightarrow> ustring \<Rightarrow> span list" where
  "collect_matches ps text =
     foldl (\<lambda>all_matches p. foldl (add_match text) all_matches (finditer p text)) [] ps"

definition ZWSP :: uchar where "ZWSP = 8203"
definition ZWNJ :: uchar where "ZWNJ = 8204"
definition ZWJ :: uchar where "ZWJ = 8205"

definition placeholder :: "nat \<Rightarrow> ustring \<Rightarrow> ustring" where
  "placeholder n t = ZWSP # str_nat n @ ZWNJ # t @ [ZWJ]"

text \<open>
  The replacement loop: its state is the preservation map, the protected text and the
  counter.
\<close>

type_synonym pmap = "(ustring \<times> ustring) list"

definition replace_step :: "pmap \<times> ustring \<times> nat \<Rightarrow> span \<Rightarrow> pmap \<times> ustring \<times> nat" where
  "replace_step st e =
     (case st of (preservation_map, protected_text, placeholder_counter) \<Rightarrow>
        let ph = placeholder placeholder_counter (sp_text e)
        in (dict_set preservation_map ph (sp_text e),
            take (sp_start e) protected_text @ ph @ drop (sp_end e) protected_text,
            Suc placeholder_counter))"

definition protect_with :: "regex list \<Rightarrow> ustring \<Rightarrow> ustring \<times> pmap" where
  "protect_with ps text =
     (case foldl replace_step ([], text, 0) (sort_desc sp_start (collect_matches ps text)) of
        (preservation_map, protected_text, n) \<Rightarrow> (protected_text, preservation_map))"

definition preserve_proper_nouns :: "ustring \<Rightarrow> ustring \<times> pmap" where
  "preserve_proper_nouns text = protect_with preserve_patterns text"

text \<open>
  Restoration. The first loop replaces the placeholders that are intact. The second takes
  every entry of the map again, reads the counter and the text off the placeholder and
  tries three candidates in turn; \<^verbatim>\<open>restored_count\<close> is only logged and is left out.
\<close>

definition placeholder_re :: regex where
  "placeholder_re = seqs [Chr (\<lambda>c. c = ZWSP), Group 1 (Plus (Chr is_digit)), Chr (\<lambda>c. c = ZWNJ),
     Group 2 (LazyPlus (Chr (\<lambda>c. c \<noteq> 10))), Chr (\<lambda>c. c = ZWJ)]"

definition exact_step :: "ustring \<Rightarrow> ustring \<times> ustring \<Rightarrow> ustring" where
  "exact_step restored_text kv =
     (case kv of (ph, original_text) \<Rightarrow>
        if py_in ph restored_text then py_replace restored_text ph original_text
        else restored_text)"

definition patterns_to_try :: "ustring \<Rightarrow> ustring list" where
  "patterns_to_try ph =
     (case re_search placeholder_re ph of
        None \<Rightarrow> []
      | Some (a, b, c) \<Rightarrow>
          (case (group ph c 1, group ph c 2) of
             (Some number, Some expected_text) \<Rightarrow>
               [number @ expected_text, number @ U '' '' @ expected_text, expected_text]
           | _ \<Rightarrow> []))"

fun try_patterns :: "ustring \<Rightarrow> ustring \<Rightarrow> ustring list \<Rightarrow> ustring" where
  "try_patterns restored_text original_text [] = restored_text"
| "try_patterns restored_text original_text (p # ps) =
     (if py_in p restored_text \<and> p \<noteq> original_text
      then py_replace restored_text p original_text
      else try_patterns restored_text original_text ps)"

definition partial_step :: "ustring \<Rightarrow> ustring \<times> ustring \<Rightarrow> ustring" where
  "partial_step restored_text kv =
     (case kv of (ph, original_text) \<Rightarrow>
        try_patterns restored_text original_text (patterns_to_try ph))"

definition restore_proper_nouns :: "ustring \<Rightarrow> pmap \<Rightarrow> ustring" where
  "restore_proper_nouns translated_text preservation_map =
     foldl partial_step (foldl exact_step translated_text preservation_map) preservation_map"

section \<open>The core module\<close>

subsection \<open>Names and entities\<close>

text \<open>\<^verbatim>\<open>self.name_patterns\<close> of \<^verbatim>\<open>pdf_translator.py\<close>; these are case-sensitive.\<close>

definition cap_word :: "regex list" where
  "cap_word = [Chr is_upper_az, Plus (Chr is_lower_az)]"

definition titled :: "ustring \<Rightarrow> regex" where
  "titled t = seqs ([WordB, Lit t, Chr (\<lambda>c. c = 32)] @ cap_word @ [Chr (\<lambda>c. c = 32)] @ cap_word
     @ [WordB])"

definition name_patterns :: "regex list" where
  "name_patterns =
     [seqs ([WordB] @ cap_word @ [Chr (\<lambda>c. c = 32)] @ cap_word @ [WordB]),
      seqs ([WordB] @ cap_word @ [Lit (U '' ''), Chr is_upper_az, Lit (U ''. '')] @ cap_word
        @ [WordB]),
      seqs ([WordB, Chr is_upper_az, Lit (U ''. '')] @ cap_word @ [WordB]),
      titled (U ''Dr.''), titled (U ''Mr.''), titled (U ''Mrs.''), titled (U ''Ms.'')]"

definition name_placeholder :: "nat \<Rightarrow> ustring" where
  "name_placeholder n = U ''__NAME_'' @ str_nat n @ U ''__''"

definition name_matches :: "ustring \<Rightarrow> (nat \<times> nat \<times> ustring) list" where
  "name_matches text =
     concat (map (\<lambda>p. map (\<lambda>(a, b, c). (a, b, slice text a b)) (finditer p text)) name_patterns)"

definition name_step ::
  "pmap \<times> ustring \<times> nat \<Rightarrow> nat \<times> nat \<times> ustring \<Rightarrow> pmap \<times> ustring \<times> nat" where
  "name_step st e =
     (case (st, e) of ((entities, modified_text, entity_counter), (start, end, name)) \<Rightarrow>
        (dict_set entities (name_placeholder entity_counter) name,
         take start modified_text @ name_placeholder entity_counter @ drop end modified_text,
         Suc entity_counter))"

definition preserve_names_and_entities :: "ustring \<Rightarrow> ustring \<times> pmap" where
  "preserve_names_and_entities text =
     (case foldl name_step ([], text, 0) (sort_desc fst (name_matches text)) of
        (entities, modified_text, n) \<Rightarrow> (modified_text, entities))"

definition restore_names_and_entities :: "ustring \<Rightarrow> pmap \<Rightarrow> ustring" where
  "restore_names_and_entities translated_text entities =
     foldl (\<lambda>restored_text (ph, original_name). py_replace restored_text ph original_name)
       translated_text entities"

subsection \<open>Chunks\<close>

text \<open>
  The sentences are the pieces of \<^verbatim>\<open>re.split(r'(?<=[.!?])\s+', protected_text)\<close>; the loop
  gathers them into chunks. Its state is the list of chunks and the current chunk.
\<close>

definition sentence_end :: "uchar \<Rightarrow> bool" where
  "sentence_end c = (c = 46 \<or> c = 33 \<or> c = 63)"

definition sentence_re :: regex where
  "sentence_re = Seq (LookBehind sentence_end) (Plus (Chr is_space))"

definition chunk_step ::
  "nat \<Rightarrow> ustring list \<times> ustring \<Rightarrow> ustring \<Rightarrow> ustring list \<times> ustring" where
  "chunk_step chunk_size st sentence =
     (case st of (chunks, current_chunk) \<Rightarrow>
        if chunk_size < length (current_chunk @ sentence)
        then ((if current_chunk \<noteq> [] then chunks @ [py_strip current_chunk] else chunks), sentence)
        else (chunks, current_chunk @ (if current_chunk \<noteq> [] then U '' '' else []) @ sentence))"

definition split_chunks :: "nat \<Rightarrow> ustring \<Rightarrow> ustring list" where
  "split_chunks chunk_size protected_text =
     (case foldl (chunk_step chunk_size) ([], []) (re_split sentence_re protected_text) of
        (chunks, current_chunk) \<Rightarrow>
          if current_chunk \<noteq> [] then chunks @ [py_strip current_chunk] else chunks)"

subsection \<open>The collaborators\<close>

text \<open>
  What the program does not own is a parameter: the translation service, the PDF reader
  and writer, the file system and \<^verbatim>\<open>pathlib\<close>. A call of the translation service has one
  of three outcomes: it raises, it returns nothing, or it returns an object whose
  \<^verbatim>\<open>text\<close> is a string or \<^verbatim>\<open>None\<close>. The service may answer differently each time, so it
  reads and changes a state of its own. The calls made and the pauses taken are recorded
  in a trace, in order.
\<close>

datatype reply = Raises | NoResult | Result "ustring option"

datatype event =
    Translate ustring ustring ustring
  | Detect ustring
  | Sleep nat
  | WritePdf ustring ustring "ustring list"

datatype pyerr = FileNotFoundError ustring | ValueError | TypeError | ReadError | BuildError

record 'w env =
  chunk_size :: nat
  output_dir :: ustring
  translate :: "'w \<Rightarrow> ustring \<Rightarrow> ustring \<Rightarrow> ustring \<Rightarrow> reply \<times> 'w"
  detect :: "'w \<Rightarrow> ustring \<Rightarrow> ustring option \<times> 'w"
  path_exists :: "ustring \<Rightarrow> bool"
  read_pages :: "ustring \<Rightarrow> ustring list option"
  build_pdf :: "ustring \<Rightarrow> ustring \<Rightarrow> ustring list \<Rightarrow> bool"
  path_stem :: "ustring \<Rightarrow> ustring"
  path_name :: "ustring \<Rightarrow> ustring"
  path_join :: "ustring \<Rightarrow> ustring \<Rightarrow> ustring"
  glob :: "ustring \<Rightarrow> ustring \<Rightarrow> ustring list"

type_synonym 'w run = "'w \<times> event list"

definition call_translate ::
  "'w env \<Rightarrow> ustring \<Rightarrow> ustring \<Rightarrow> ustring \<Rightarrow> 'w run \<Rightarrow> reply \<times> 'w run" where
  "call_translate E chunk src dest st =
     (case st of (w, tr) \<Rightarrow>
        (case translate E w chunk src dest of
           (r, w') \<Rightarrow> (r, (w', tr @ [Translate chunk src dest]))))"

definition sleep :: "nat \<Rightarrow> 'w run \<Rightarrow> 'w run" where
  "sleep ms st = (case st of (w, tr) \<Rightarrow> (w, tr @ [Sleep ms]))"

subsection \<open>Translating the chunks\<close>

text \<open>
  The attempts of one chunk, \<^verbatim>\<open>for attempt in range(2)\<close>: an attempt succeeds when the
  object returned and its text are both truthy; after an exception in the first attempt
  the loop pauses for half a second.
\<close>

fun attempts ::
  "'w env \<Rightarrow> ustring \<Rightarrow> ustring \<Rightarrow> ustring \<Rightarrow> nat list \<Rightarrow> 'w run \<Rightarrow> ustring option \<times> 'w run" where
  "attempts E src dest chunk [] st = (None, st)"
| "attempts E src dest chunk (attempt # rest) st =
     (case call_translate E chunk src dest st of
        (Raises, st1) \<Rightarrow>
          attempts E src dest chunk rest (if attempt = 0 then sleep 500 st1 else st1)
      | (NoResult, st1) \<Rightarrow> attempts E src dest chunk rest st1
      | (Result None, st1) \<Rightarrow> attempts E src dest chunk rest st1
      | (Result (Some t), st1) \<Rightarrow>
          if t \<noteq> [] then (Some t, st1) else attempts E src dest chunk rest st1)"

definition translate_chunk ::
  "'w env \<Rightarrow> ustring \<Rightarrow> ustring \<Rightarrow> nat \<Rightarrow> ustring \<Rightarrow> 'w run \<Rightarrow> ustring \<times> 'w run" where
  "translate_chunk E src dest i chunk st =
     (case attempts E src dest chunk [0, 1] (if 0 < i then sleep 200 st else st) of
        (Some best_translation, st1) \<Rightarrow> (best_translation, st1)
      | (None, st1) \<Rightarrow> (chunk, st1))"

fun translate_chunks ::
  "'w env \<Rightarrow> ustring \<Rightarrow> ustring \<Rightarrow> nat \<Rightarrow> ustring list \<Rightarrow> 'w run \<Rightarrow> ustring list \<times> 'w run" where
  "translate_chunks E src dest i [] st = ([], st)"
| "translate_chunks E src dest i (chunk # chunks) st =
     (case translate_chunk E src dest i chunk st of
        (t, st1) \<Rightarrow>
          (case translate_chunks E src dest (Suc i) chunks st1 of
             (ts, st2) \<Rightarrow> (t # ts, st2)))"

definition translate_text_chunks ::
  "'w env \<Rightarrow> ustring \<Rightarrow> ustring \<Rightarrow> ustring \<Rightarrow> 'w run \<Rightarrow> ustring \<times> 'w run" where
  "translate_text_chunks E text source_lang target_lang st =
     (if py_strip text = [] then (text, st)
      else case preserve_names_and_entities text of
        (protected_text, entities) \<Rightarrow>
          (case translate_chunks E source_lang target_lang 0
                  (split_chunks (chunk_size E) protected_text) st of
             (translated_chunks, st1) \<Rightarrow>
               (restore_names_and_entities (py_join (U '' '') translated_chunks) entities, st1)))"

text \<open>
  The web application's \<^verbatim>\<open>translate_text_chunks\<close> cuts the text every \<^verbatim>\<open>chunk_size\<close>
  characters and calls the service once for a chunk. A reply without an object raises
  inside the \<^verbatim>\<open>try\<close> and the chunk is kept; a reply whose text is \<^verbatim>\<open>None\<close> is appended as
  it is and makes the final \<^verbatim>\<open>join\<close> raise. A step of zero makes \<^verbatim>\<open>range\<close> raise.
\<close>

function fixed_chunks :: "nat \<Rightarrow> ustring \<Rightarrow> ustring list" where
  "fixed_chunks n text =
     (if n = 0 \<or> text = [] then [] else take n text # fixed_chunks n (drop n text))"
  by pat_completeness auto
termination
  by (relation "measure (\<lambda>(n, text). length text)") auto

declare fixed_chunks.simps [simp del]

fun translate_chunks_webapp ::
  "'w env \<Rightarrow> ustring \<Rightarrow> ustring \<Rightarrow> nat \<Rightarrow> ustring list \<Rightarrow> 'w run
     \<Rightarrow> ustring option list \<times> 'w run" where
  "translate_chunks_webapp E src dest i [] st = ([], st)"
| "translate_chunks_webapp E src dest i (chunk # chunks) st =
     (case call_translate E chunk src dest (if 0 < i then sleep 200 st else st) of
        (r, st1) \<Rightarrow>
          (case translate_chunks_webapp E src dest (Suc i) chunks st1 of
             (ts, st2) \<Rightarrow>
               ((case r of Raises \<Rightarrow> Some chunk | NoResult \<Rightarrow> Some chunk | Result t \<Rightarrow> t) # ts,
                st2)))"

definition translate_text_chunks_webapp ::
  "'w env \<Rightarrow> ustring \<Rightarrow> ustring \<Rightarrow> ustring \<Rightarrow> 'w run \<Rightarrow> (pyerr + ustring) \<times> 'w run" where
  "translate_text_chunks_webapp E text source_lang target_lang st =
     (if py_strip text = [] then (Inr text, st)
      else if chunk_size E = 0 then (Inl ValueError, st)
      else case translate_chunks_webapp E source_lang target_lang 0
                  (fixed_chunks (chunk_size E) text) st of
        (translated_chunks, st1) \<Rightarrow>
          if list_all (\<lambda>t. t \<noteq> None) translated_chunks
          then (Inr (py_join (U '' '') (map the translated_chunks)), st1)
          else (Inl TypeError, st1))"

subsection \<open>One document\<close>

text \<open>
  \<^verbatim>\<open>extract_text_from_pdf\<close> joins the text of the pages, a blank line after each, and strips
  the result; an exception of the reader is raised again.
\<close>

definition extract_text_from_pdf :: "'w env \<Rightarrow> ustring \<Rightarrow> pyerr + ustring" where
  "extract_text_from_pdf E pdf_path =
     (case read_pages E pdf_path of
        None \<Rightarrow> Inl ReadError
      | Some pages \<Rightarrow> Inr (py_strip (concat (map (\<lambda>page. page @ [10, 10]) pages))))"

definition SUPPORTED_LANGUAGES :: "(string \<times> string) list" where
  "SUPPORTED_LANGUAGES =
     [(''finnish'', ''fi''), (''french'', ''fr''), (''spanish'', ''es''), (''german'', ''de''),
      (''italian'', ''it''), (''portuguese'', ''pt''), (''russian'', ''ru''), (''chinese'', ''zh''),
      (''japanese'', ''ja''), (''korean'', ''ko''), (''dutch'', ''nl''), (''swedish'', ''sv''),
      (''norwegian'', ''no''), (''danish'', ''da''), (''polish'', ''pl'')]"

text \<open>
  \<^verbatim>\<open>detect_language\<close> asks the service about the first 1000 characters and never raises:
  the result is the language code and its name (the confidence, a float that is only
  logged, is left out).
\<close>

definition detect_language :: "'w env \<Rightarrow> ustring \<Rightarrow> 'w run \<Rightarrow> (ustring \<times> ustring) \<times> 'w run" where
  "detect_language E text st =
     (case st of (w, tr) \<Rightarrow>
        (case detect E w (take 1000 text) of
           (None, w') \<Rightarrow> ((U ''unknown'', U ''unknown''), (w', tr @ [Detect (take 1000 text)]))
         | (Some lang, w') \<Rightarrow>
             ((lang,
               (case filter (\<lambda>(k, v). U v = lang) SUPPORTED_LANGUAGES of
                  [] \<Rightarrow> lang
                | (k, v) # _ \<Rightarrow> U k)),
              (w', tr @ [Detect (take 1000 text)]))))"

text \<open>\<^verbatim>\<open>s.split(sep)\<close> for a separator that is not empty.\<close>

function split_on :: "ustring \<Rightarrow> ustring \<Rightarrow> ustring \<Rightarrow> ustring list" where
  "split_on sep acc s =
     (if s = [] then [acc]
      else if sep \<noteq> [] \<and> prefix sep s then acc # split_on sep [] (drop (length sep) s)
      else split_on sep (acc @ [hd s]) (tl s))"
  by pat_completeness auto
termination
  by (relation "measure (\<lambda>(sep, acc, s). length s)") auto

declare split_on.simps [simp del]

definition create_pdf_from_text ::
  "'w env \<Rightarrow> ustring \<Rightarrow> ustring \<Rightarrow> ustring \<Rightarrow> 'w run \<Rightarrow> (pyerr + unit) \<times> 'w run" where
  "create_pdf_from_text E text output_path title st =
     (let story = map (\<lambda>para. py_replace (py_strip para) [10] (U '' ''))
                    (filter (\<lambda>para. py_strip para \<noteq> []) (split_on [10, 10] [] text))
      in if build_pdf E output_path title story
         then (case st of (w, tr) \<Rightarrow> (Inr (), (w, tr @ [WritePdf output_path title story])))
         else (Inl BuildError, st))"

definition translate_single_pdf ::
  "'w env \<Rightarrow> ustring \<Rightarrow> ustring option \<Rightarrow> ustring \<Rightarrow> 'w run \<Rightarrow> (pyerr + ustring) \<times> 'w run" where
  "translate_single_pdf E input_path output_filename source_lang st =
     (if \<not> path_exists E input_path then (Inl (FileNotFoundError input_path), st)
      else case extract_text_from_pdf E input_path of
        Inl e \<Rightarrow> (Inl e, st)
      | Inr text \<Rightarrow>
          if py_strip text = [] then (Inl ValueError, st)
          else
            (case (if source_lang = U ''auto''
                   then (case detect_language E text st of (detection, st1) \<Rightarrow> (fst detection, st1))
                   else (source_lang, st)) of
               (source_lang', st1) \<Rightarrow>
                 (case translate_text_chunks E text source_lang' (U ''en'') st1 of
                    (translated_text, st2) \<Rightarrow>
                      (let output_filename' =
                             (case output_filename of
                                None \<Rightarrow> path_stem E input_path @ U ''_translated_en.pdf''
                              | Some f \<Rightarrow>
                                  if f = [] then path_stem E input_path @ U ''_translated_en.pdf''
                                  else f);
                           output_path = path_join E (output_dir E) output_filename';
                           title = U ''Translated: '' @ path_name E input_path
                       in case create_pdf_from_text E translated_text output_path title st2 of
                            (Inl e, st3) \<Rightarrow> (Inl e, st3)
                          | (Inr u, st3) \<Rightarrow> (Inr output_path, st3)))))"

subsection \<open>A directory of documents\<close>

text \<open>
  The loop of \<^verbatim>\<open>batch_translate_pdfs\<close> keeps two lists, \<^verbatim>\<open>translated_files\<close> and
  \<^verbatim>\<open>failed_files\<close>; the function returns the first and logs the second.
\<close>

fun batch_loop ::
  "'w env \<Rightarrow> ustring \<Rightarrow> ustring list \<Rightarrow> ustring list \<times> ustring list \<Rightarrow> 'w run
     \<Rightarrow> (ustring list \<times> ustring list) \<times> 'w run" where
  "batch_loop E source_lang [] acc st = (acc, st)"
| "batch_loop E source_lang (pdf_file # pdf_files) acc st =
     (case acc of (translated_files, failed_files) \<Rightarrow>
        (case translate_single_pdf E pdf_file None source_lang st of
           (Inr output_path, st1) \<Rightarrow>
             batch_loop E source_lang pdf_files (translated_files @ [output_path], failed_files) st1
         | (Inl e, st1) \<Rightarrow>
             batch_loop E source_lang pdf_files (translated_files, failed_files @ [pdf_file]) st1))"

definition batch_translate_pdfs ::
  "'w env \<Rightarrow> ustring \<Rightarrow> ustring \<Rightarrow> ustring \<Rightarrow> 'w run \<Rightarrow> (pyerr + ustring list) \<times> 'w run" where
  "batch_translate_pdfs E input_directory pattern source_lang st =
     (if \<not> path_exists E input_directory then (Inl (FileNotFoundError input_directory), st)
      else if glob E input_directory pattern = [] then (Inr [], st)
      else case batch_loop E source_lang (glob E input_directory pattern) ([], []) st of
        ((translated_files, failed_files), st1) \<Rightarrow> (Inr translated_files, st1))"

subsection \<open>The table of languages\<close>

text \<open>
  \<^verbatim>\<open>get_supported_languages\<close> returns \<^verbatim>\<open>self.SUPPORTED_LANGUAGES.copy()\<close>. Whether a caller
  can change the table through what it gets depends on which object it gets, so
  dictionaries live in a store, at addresses; the table of the class is at address 0. A
  copy is a new object with the same items.
\<close>

type_synonym dict = "(string \<times> string) list"

record store =
  objs :: "nat \<Rightarrow> dict option"
  next_addr :: nat

definition initial_store :: store where
  "initial_store = \<lparr>objs = (\<lambda>a. if a = 0 then Some SUPPORTED_LANGUAGES else None), next_addr = 1\<rparr>"

definition get_supported_languages :: "store \<Rightarrow> (nat \<times> store) option" where
  "get_supported_languages st =
     (case objs st 0 of
        None \<Rightarrow> None
      | Some table \<Rightarrow>
          Some (next_addr st,
                st\<lparr>objs := (objs st)(next_addr st := Some table), next_addr := Suc (next_addr st)\<rparr>))"

text \<open>
  A caller calls the accessor or changes a dictionary it was given: \<open>Mutate k d\<close> makes
  the dictionary of its \<open>k\<close>-th call hold the items \<open>d\<close>. \<open>client\<close> runs a caller and lists
  what each call of the accessor returned: the address and the items found there at the
  time.
\<close>

datatype client_op = Get | Mutate nat dict

fun client :: "client_op list \<Rightarrow> store \<Rightarrow> nat list \<Rightarrow> (nat \<times> dict option) list" where
  "client [] st handles = []"
| "client (Get # ops) st handles =
     (case get_supported_languages st of
        None \<Rightarrow> []
      | Some (a, st') \<Rightarrow> (a, objs st' a) # client ops st' (handles @ [a]))"
| "client (Mutate k d # ops) st handles =
     (if k < length handles
      then client ops (st\<lparr>objs := (objs st)(handles ! k := Some d)\<rparr>) handles
      else client ops st handles)"

section \<open>Collaborators for the examples\<close>

text \<open>
  A service that is down: every call of the translation service and of the detector
  raises. The reader finds one page of white space and one empty page in every file.
\<close>

definition quiet_env :: "nat env" where
  "quiet_env = \<lparr>chunk_size = 3000, output_dir = U ''out'',
     translate = (\<lambda>w chunk src dest. (Raises, Suc w)),
     detect = (\<lambda>w sample. (None, Suc w)),
     path_exists = (\<lambda>p. True),
     read_pages = (\<lambda>p. Some [U '' '', []]),
     build_pdf = (\<lambda>p t story. True),
     path_stem = (\<lambda>p. p), path_name = (\<lambda>p. p), path_join = (\<lambda>d f. d @ [47] @ f),
     glob = (\<lambda>d p. [])\<rparr>"




text \<open>The number of calls of the accessor a caller makes.\<close>

definition get_count :: "client_op list \<Rightarrow> nat" where
  "get_count ops = length (filter (\<lambda>op. op = Get) ops)"

text \<open>
  A directory of three files of which the second cannot be read; the translation service
  answers every call with the same sentence.
\<close>

definition three_env :: "nat env" where
  "three_env = \<lparr>chunk_size = 3000, output_dir = U ''out'',
     translate = (\<lambda>w chunk src dest. (Result (Some (U ''Hello.'')), Suc w)),
     detect = (\<lambda>w sample. (Some (U ''fi''), w)),
     path_exists = (\<lambda>p. True),
     read_pages = (\<lambda>p. if p = U ''b.pdf'' then None else Some [U ''Hei.'']),
     build_pdf = (\<lambda>p t story. True),
     path_stem = (\<lambda>p. take (length p - 4) p), path_name = (\<lambda>p. p),
     path_join = (\<lambda>d f. d @ [47] @ f),
     glob = (\<lambda>d p. [U ''a.pdf'', U ''b.pdf'', U ''c.pdf''])\<rparr>"

text \<open>
  For the proofs about the chunks: the pieces \<^verbatim>\<open>re.split\<close> makes of a text at the white
  space after a full stop, an exclamation mark or a question mark, described directly.
  \<open>sentences e acc cs\<close> reads \<open>cs\<close> with the piece \<open>acc\<close> begun, \<open>e\<close> telling whether
  the character before ends a sentence.
\<close>

function sentences :: "bool \<Rightarrow> ustring \<Rightarrow> ustring \<Rightarrow> ustring list" where
  "sentences e acc [] = [acc]"
| "sentences e acc (x # xs) =
     (if e \<and> is_space x then acc # sentences False [] (dropWhile is_space xs)
      else sentences (sentence_end x) (acc @ [x]) xs)"
  by pat_completeness auto
termination
  by (relation "measure (\<lambda>(e, acc, cs). length cs)")
    (auto simp: length_dropWhile_le less_Suc_eq_le)

fun after_end :: "uchar option \<Rightarrow> bool" where
  "after_end None = False"
| "after_end (Some p) = sentence_end p"





text \<open>
  For the proofs about placeholders: no placeholder with the counter \<open>c\<close> begins inside
  the text \<open>A\<close>, whatever follows \<open>A\<close>.
\<close>

definition clean :: "nat \<Rightarrow> ustring \<Rightarrow> bool" where
  "clean c A = (\<forall>V t Z. suffix V A \<and> V \<noteq> [] \<longrightarrow> \<not> prefix (placeholder c t) (V @ Z))"





text \<open>
  Batch translation as the specification words it: the single-document pipeline applied to
  each file in order, each run starting in the state the run before it left, with a result
  or an error for every file. \<open>successes\<close> are the output paths among the results,
  \<open>failures\<close> the files whose result is an error.
\<close>

fun each_file ::
  "'w env \<Rightarrow> ustring \<Rightarrow> ustring list \<Rightarrow> 'w run \<Rightarrow> (pyerr + ustring) list \<times> 'w run" where
  "each_file E source_lang [] st = ([], st)"
| "each_file E source_lang (f # fs) st =
     (case translate_single_pdf E f None source_lang st of
        (r, st1) \<Rightarrow> (case each_file E source_lang fs st1 of (rs, st2) \<Rightarrow> (r # rs, st2)))"

fun successes :: "(pyerr + ustring) list \<Rightarrow> ustring list" where
  "successes [] = []"
| "successes (Inr out # rs) = out # successes rs"
| "successes (Inl e # rs) = successes rs"

fun failures :: "ustring list \<Rightarrow> (pyerr + ustring) list \<Rightarrow> ustring list" where
  "failures (f # fs) (Inl e # rs) = f # failures fs rs"
| "failures (f # fs) (Inr out # rs) = failures fs rs"
| "failures fs rs = []"

section \<open>Properties\<close>

subsection \<open>Evaluation\<close>

text \<open>The equations that evaluate the regular expressions and the text functions.\<close>

lemmas regex_eval = finditer_def scan.simps advanced_def Plus_def LazyPlus_def AtLeast2_def
  Lit_def LitI_def re_search_def re_split_def group_def slice_def sort_desc_def
  is_space_def is_ascii_digit_def is_digit_def is_upper_az_def is_lower_az_def is_alnum_def
  is_word_def alnum_above_ascii_def decimal_above_ascii_def
  ci_letter_def ci_lit_def U_def str_nat.simps py_replace.simps py_strip_def

lemmas core_eval = name_patterns_def cap_word_def titled_def name_placeholder_def
  name_matches_def name_step_def preserve_names_and_entities_def
  restore_names_and_entities_def sentence_end_def sentence_re_def chunk_step_def
  split_chunks_def translate_chunk_def call_translate_def sleep_def
  translate_text_chunks_def extract_text_from_pdf_def detect_language_def
  split_on.simps create_pdf_from_text_def translate_single_pdf_def

lemmas webapp_eval = pattern_company_def pattern_email_def pattern_person_def
  email_local_def email_domain_def email_tld_def preserve_proper_nouns_def protect_with_def
  preserve_patterns_def collect_matches_def add_match_def overlaps_def replace_step_def
  placeholder_def ZWSP_def ZWNJ_def ZWJ_def restore_proper_nouns_def exact_step_def
  partial_step_def patterns_to_try_def placeholder_re_def

subsection \<open>Blank text\<close>

lemma strip_blank: "list_all is_space s \<Longrightarrow> py_strip s = []"
  by (auto simp: py_strip_def list_all_iff dest: set_dropWhileD)

lemma strip_empty_iff: "py_strip s = [] \<longleftrightarrow> list_all is_space s"
proof
  assume a: "py_strip s = []"
  then have "dropWhile is_space (rev (dropWhile is_space s)) = []"
    by (simp add: py_strip_def)
  then have "\<forall>x \<in> set (dropWhile is_space s). is_space x"
    by simp
  then have "dropWhile is_space s = []"
    by (metis hd_dropWhile hd_in_set)
  then show "list_all is_space s"
    by (simp add: list_all_iff)
qed (rule strip_blank)

text \<open>
  C10. Given a text whose characters are all white space (the empty text among them),
  \<^verbatim>\<open>translate_text_chunks\<close> returns the text as it is, in the core module and in the web
  application, and leaves the state of the run as it was: nothing is translated, no pause
  is taken, and neither protection nor chunking is reached.
\<close>

theorem blank_input_identity:
  "list_all is_space text \<Longrightarrow>
     translate_text_chunks E text source_lang target_lang st = (text, st) \<and>
     translate_text_chunks_webapp E text source_lang target_lang st = (Inr text, st)"
  by (simp add: translate_text_chunks_def translate_text_chunks_webapp_def strip_blank)

theorem blank_input_identity_witness:
  "list_all is_space [32, 10, 9] \<and>
   translate_text_chunks quiet_env [32, 10, 9] (U ''fi'') (U ''en'') (0, []) = ([32, 10, 9], (0, [])) \<and>
   translate_text_chunks_webapp quiet_env [32, 10, 9] (U ''fi'') (U ''en'') (0, [])
     = (Inr [32, 10, 9], (0, []))"
  using blank_input_identity [of "[32, 10, 9]" quiet_env "U ''fi''" "U ''en''" "(0, [])"]
  by (simp add: is_space_def)

subsection \<open>One document\<close>

text \<open>
  C7. When the file exists and the text extracted from it is empty or all white space,
  \<^verbatim>\<open>translate_single_pdf\<close> raises \<^verbatim>\<open>ValueError\<close> (the content error) and the state of the
  run is as before: the detector and the translation service have not been called and no
  document has been written.
\<close>

theorem empty_document_rejection:
  "path_exists E input_path \<Longrightarrow> extract_text_from_pdf E input_path = Inr text \<Longrightarrow>
   list_all is_space text \<Longrightarrow>
     translate_single_pdf E input_path output_filename source_lang st = (Inl ValueError, st)"
  by (simp add: translate_single_pdf_def strip_blank)

theorem empty_document_rejection_witness:
  "path_exists quiet_env (U ''a.pdf'') \<and> extract_text_from_pdf quiet_env (U ''a.pdf'') = Inr [] \<and>
   list_all is_space [] \<and>
   translate_single_pdf quiet_env (U ''a.pdf'') None (U ''auto'') (0, []) = (Inl ValueError, (0, []))"
proof -
  have e: "extract_text_from_pdf quiet_env (U ''a.pdf'') = Inr []"
    by (simp add: extract_text_from_pdf_def quiet_env_def py_strip_def U_def is_space_def)
  have p: "path_exists quiet_env (U ''a.pdf'')" by (simp add: quiet_env_def)
  show ?thesis
    using empty_document_rejection [OF p e, of None "U ''auto''" "(0, [])"] p e by simp
qed

subsection \<open>Retries and fallback\<close>
















subsection \<open>The table of languages\<close>

lemma client_table:
  "objs st 0 = Some SUPPORTED_LANGUAGES \<Longrightarrow> 0 < next_addr st \<Longrightarrow>
   list_all (\<lambda>a. 0 < a \<and> a < next_addr st) handles \<Longrightarrow>
     list_all (\<lambda>(a, d). a \<noteq> 0 \<and> d = Some SUPPORTED_LANGUAGES) (client ops st handles) \<and>
     length (client ops st handles) = get_count ops"
proof (induction ops arbitrary: st handles)
  case Nil
  then show ?case by (simp add: get_count_def)
next
  case (Cons op ops)
  show ?case
  proof (cases op)
    case Get
    let ?a = "next_addr st"
    let ?st = "st\<lparr>objs := (objs st)(?a := Some SUPPORTED_LANGUAGES), next_addr := Suc ?a\<rparr>"
    have g: "get_supported_languages st = Some (?a, ?st)"
      using Cons.prems(1) by (simp add: get_supported_languages_def)
    have "list_all (\<lambda>a. 0 < a \<and> a < next_addr ?st) (handles @ [?a])"
      using Cons.prems(2,3) by (auto simp: list_all_iff)
    moreover have "objs ?st 0 = Some SUPPORTED_LANGUAGES" "0 < next_addr ?st"
      using Cons.prems(1,2) by auto
    ultimately have "list_all (\<lambda>(a, d). a \<noteq> 0 \<and> d = Some SUPPORTED_LANGUAGES)
        (client ops ?st (handles @ [?a])) \<and>
      length (client ops ?st (handles @ [?a])) = get_count ops"
      by (intro Cons.IH)
    with g Get Cons.prems(2) show ?thesis by (simp add: get_count_def)
  next
    case (Mutate k d)
    show ?thesis
    proof (cases "k < length handles")
      case True
      let ?st = "st\<lparr>objs := (objs st)(handles ! k := Some d)\<rparr>"
      from True Cons.prems(3) have "0 < handles ! k" by (simp add: list_all_length)
      then have "objs ?st 0 = Some SUPPORTED_LANGUAGES" using Cons.prems(1) by simp
      moreover have "0 < next_addr ?st" "list_all (\<lambda>a. 0 < a \<and> a < next_addr ?st) handles"
        using Cons.prems(2,3) by simp_all
      ultimately have "list_all (\<lambda>(a, d). a \<noteq> 0 \<and> d = Some SUPPORTED_LANGUAGES)
          (client ops ?st handles) \<and> length (client ops ?st handles) = get_count ops"
        by (intro Cons.IH)
      with True Mutate show ?thesis by (simp add: get_count_def)
    next
      case False
      with Mutate Cons.IH [OF Cons.prems] show ?thesis by (simp add: get_count_def)
    qed
  qed
qed

text \<open>
  C9. Whatever a caller does with the dictionaries it was given, every call of
  \<^verbatim>\<open>get_supported_languages\<close> returns a dictionary that is equal to the table and is not
  the table's own object (its address is not 0): changing a returned dictionary changes
  nothing a later call observes.
\<close>

theorem supported_languages_read_only:
  "list_all (\<lambda>(a, d). a \<noteq> 0 \<and> d = Some SUPPORTED_LANGUAGES) (client ops initial_store []) \<and>
   length (client ops initial_store []) = get_count ops"
  by (rule client_table) (simp_all add: initial_store_def)

theorem supported_languages_read_only_witness:
  "client [Get, Mutate 0 [(''klingon'', ''tlh'')], Get] initial_store []
     = [(1, Some SUPPORTED_LANGUAGES), (2, Some SUPPORTED_LANGUAGES)] \<and>
   get_count [Get, Mutate 0 [(''klingon'', ''tlh'')], Get] = 2"
proof -
  have "client [Get, Mutate 0 [(''klingon'', ''tlh'')], Get] initial_store []
     = [(1, Some SUPPORTED_LANGUAGES), (2, Some SUPPORTED_LANGUAGES)]"
    by (simp add: get_supported_languages_def initial_store_def)
  then show ?thesis
    using supported_languages_read_only [of "[Get, Mutate 0 [(''klingon'', ''tlh'')], Get]"]
    by simp
qed

subsection \<open>A directory of documents\<close>

lemma three_extract:
  "extract_text_from_pdf three_env (U ''a.pdf'') = Inr (U ''Hei.'')"
  "extract_text_from_pdf three_env (U ''c.pdf'') = Inr (U ''Hei.'')"
  by (simp_all add: three_env_def extract_text_from_pdf_def py_strip_def is_space_def U_def)

lemma three_translate:
  "translate_text_chunks three_env (U ''Hei.'') (U ''fi'') (U ''en'') (w, tr)
     = (U ''Hello.'', (Suc w, tr @ [Translate (U ''Hei.'') (U ''fi'') (U ''en'')]))"
  by (simp add: three_env_def regex_eval core_eval)

lemma three_create:
  "create_pdf_from_text three_env (U ''Hello.'') path title (w, tr)
     = (Inr (), (w, tr @ [WritePdf path title [U ''Hello.'']]))"
  by (simp add: three_env_def create_pdf_from_text_def split_on.simps regex_eval)

lemma three_a:
  "translate_single_pdf three_env (U ''a.pdf'') None (U ''fi'') (w, tr)
     = (Inr (U ''out/a_translated_en.pdf''),
        (Suc w, tr @ [Translate (U ''Hei.'') (U ''fi'') (U ''en''),
           WritePdf (U ''out/a_translated_en.pdf'') (U ''Translated: a.pdf'') [U ''Hello.'']]))"
proof -
  have "py_strip (U ''Hei.'') \<noteq> []" "U ''fi'' \<noteq> U ''auto''"
    by (simp_all add: py_strip_def is_space_def U_def)
  moreover have "path_exists three_env (U ''a.pdf'')"
    "path_join three_env (output_dir three_env) (path_stem three_env (U ''a.pdf'') @ U ''_translated_en.pdf'')
       = U ''out/a_translated_en.pdf''"
    "U ''Translated: '' @ path_name three_env (U ''a.pdf'') = U ''Translated: a.pdf''"
    by (simp_all add: three_env_def U_def)
  ultimately show ?thesis
    by (simp add: translate_single_pdf_def three_extract three_translate three_create Let_def)
qed

lemma three_c:
  "translate_single_pdf three_env (U ''c.pdf'') None (U ''fi'') (w, tr)
     = (Inr (U ''out/c_translated_en.pdf''),
        (Suc w, tr @ [Translate (U ''Hei.'') (U ''fi'') (U ''en''),
           WritePdf (U ''out/c_translated_en.pdf'') (U ''Translated: c.pdf'') [U ''Hello.'']]))"
proof -
  have "py_strip (U ''Hei.'') \<noteq> []" "U ''fi'' \<noteq> U ''auto''"
    by (simp_all add: py_strip_def is_space_def U_def)
  moreover have "path_exists three_env (U ''c.pdf'')"
    "path_join three_env (output_dir three_env) (path_stem three_env (U ''c.pdf'') @ U ''_translated_en.pdf'')
       = U ''out/c_translated_en.pdf''"
    "U ''Translated: '' @ path_name three_env (U ''c.pdf'') = U ''Translated: c.pdf''"
    by (simp_all add: three_env_def U_def)
  ultimately show ?thesis
    by (simp add: translate_single_pdf_def three_extract three_translate three_create Let_def)
qed

lemma three_b:
  "translate_single_pdf three_env (U ''b.pdf'') None (U ''fi'') st = (Inl ReadError, st)"
proof -
  have "extract_text_from_pdf three_env (U ''b.pdf'') = Inl ReadError"
    "path_exists three_env (U ''b.pdf'')"
    by (simp_all add: three_env_def extract_text_from_pdf_def)
  then show ?thesis by (simp add: translate_single_pdf_def)
qed

lemma batch_loop_accounts:
  "batch_loop E source_lang files (translated, failed) st = ((translated', failed'), st') \<Longrightarrow>
     length translated' + length failed' = length translated + length failed + length files \<and>
     prefix translated translated' \<and> prefix failed failed' \<and>
     set (drop (length failed) failed') \<subseteq> set files"
proof (induction files arbitrary: translated failed st)
  case Nil
  then show ?case by simp
next
  case (Cons f fs)
  obtain r st1 where s: "translate_single_pdf E f None source_lang st = (r, st1)"
    by (cases "translate_single_pdf E f None source_lang st")
  show ?case
  proof (cases r)
    case (Inl e)
    with s Cons.prems have
      "batch_loop E source_lang fs (translated, failed @ [f]) st1 = ((translated', failed'), st')"
      by simp
    from Cons.IH [OF this] show ?thesis
      by (auto simp: prefix_def dest: in_set_dropD)
  next
    case (Inr out)
    with s Cons.prems have
      "batch_loop E source_lang fs (translated @ [out], failed) st1 = ((translated', failed'), st')"
      by simp
    from Cons.IH [OF this] show ?thesis
      by (auto simp: prefix_def)
  qed
qed

lemma batch_loop_each:
  "batch_loop E source_lang files (translated, failed) st
     = ((translated @ successes (fst (each_file E source_lang files st)),
         failed @ failures files (fst (each_file E source_lang files st))),
        snd (each_file E source_lang files st))"
proof (induction files arbitrary: translated failed st)
  case Nil
  show ?case by simp
next
  case (Cons f fs)
  obtain r st1 where s: "translate_single_pdf E f None source_lang st = (r, st1)"
    by (cases "translate_single_pdf E f None source_lang st")
  obtain rs st2 where e: "each_file E source_lang fs st1 = (rs, st2)"
    by (cases "each_file E source_lang fs st1")
  show ?case
  proof (cases r)
    case (Inl err)
    with s e Cons.IH [of translated "failed @ [f]" st1] show ?thesis by simp
  next
    case (Inr out)
    with s e Cons.IH [of "translated @ [out]" failed st1] show ?thesis by simp
  qed
qed

lemma each_file_length: "length (fst (each_file E source_lang files st)) = length files"
proof (induction files arbitrary: st)
  case Nil
  show ?case by simp
next
  case (Cons f fs)
  obtain r st1 where s: "translate_single_pdf E f None source_lang st = (r, st1)"
    by (cases "translate_single_pdf E f None source_lang st")
  obtain rs st2 where e: "each_file E source_lang fs st1 = (rs, st2)"
    by (cases "each_file E source_lang fs st1")
  from Cons.IH [of st1] s e show ?case by simp
qed

lemma each_file_nth:
  "k < length files \<Longrightarrow>
     fst (each_file E source_lang files st) ! k
       = fst (translate_single_pdf E (files ! k) None source_lang
               (snd (each_file E source_lang (take k files) st)))"
proof (induction files arbitrary: st k)
  case Nil
  then show ?case by simp
next
  case (Cons f fs)
  obtain r st1 where s: "translate_single_pdf E f None source_lang st = (r, st1)"
    by (cases "translate_single_pdf E f None source_lang st")
  obtain rs st2 where e: "each_file E source_lang fs st1 = (rs, st2)"
    by (cases "each_file E source_lang fs st1")
  show ?case
  proof (cases k)
    case 0
    with s e show ?thesis by simp
  next
    case (Suc k')
    with Cons.prems have k': "k' < length fs" by simp
    obtain rs' st' where c: "each_file E source_lang (take k' fs) st1 = (rs', st')"
      by (cases "each_file E source_lang (take k' fs) st1")
    from Cons.IH [OF k', of st1] s e c Suc show ?thesis by simp
  qed
qed

lemma batch_translate_each:
  assumes "path_exists E dir"
  shows "batch_translate_pdfs E dir pattern source_lang st
    = (Inr (successes (fst (each_file E source_lang (glob E dir pattern) st))),
       snd (each_file E source_lang (glob E dir pattern) st))"
proof (cases "glob E dir pattern = []")
  case True
  with assms show ?thesis by (simp add: batch_translate_pdfs_def)
next
  case False
  with assms show ?thesis
    by (simp add: batch_translate_pdfs_def batch_loop_each [of E source_lang _ "[]" "[]", simplified])
qed

text \<open>
  C8, as amended. \<^verbatim>\<open>batch_translate_pdfs\<close> runs \<^verbatim>\<open>translate_single_pdf\<close> on each matched
  file in order, each from the state the one before left, whether the files before it
  succeeded or failed. A file that fails goes to the list of failures and the loop goes
  on: the loop ends with the output paths of all the files that succeeded, in order, and
  with all the files that failed, in order. The value returned is the list of the output
  paths of the files that succeeded; the failures are logged and are not part of it. For
  three files of which only the second fails, the first and the third output paths are
  returned and the second file is the one failure recorded.
\<close>

theorem batch_partial_failure:
  "batch_loop E source_lang files ([], []) st
     = ((successes (fst (each_file E source_lang files st)),
         failures files (fst (each_file E source_lang files st))),
        snd (each_file E source_lang files st)) \<and>
   length (fst (each_file E source_lang files st)) = length files \<and>
   (\<forall>k < length files.
      fst (each_file E source_lang files st) ! k
        = fst (translate_single_pdf E (files ! k) None source_lang
                (snd (each_file E source_lang (take k files) st)))) \<and>
   (path_exists E dir \<longrightarrow>
      batch_translate_pdfs E dir pattern source_lang st
        = (Inr (successes (fst (each_file E source_lang (glob E dir pattern) st))),
           snd (each_file E source_lang (glob E dir pattern) st))) \<and>
   (batch_loop E source_lang files ([], []) st = ((translated, failed), st') \<longrightarrow>
      length translated + length failed = length files \<and> set failed \<subseteq> set files) \<and>
   (path_exists E dir \<and> glob E dir pattern = [f1, f2, f3] \<and>
    translate_single_pdf E f1 None source_lang st = (Inr o1, st1) \<and>
    translate_single_pdf E f2 None source_lang st1 = (Inl e, st2) \<and>
    translate_single_pdf E f3 None source_lang st2 = (Inr o3, st3) \<longrightarrow>
      batch_loop E source_lang [f1, f2, f3] ([], []) st = (([o1, o3], [f2]), st3) \<and>
      batch_translate_pdfs E dir pattern source_lang st = (Inr [o1, o3], st3))"
proof (intro conjI)
  show "batch_loop E source_lang files ([], []) st
     = ((successes (fst (each_file E source_lang files st)),
         failures files (fst (each_file E source_lang files st))),
        snd (each_file E source_lang files st))"
    using batch_loop_each [of E source_lang files "[]" "[]" st] by simp
  show "length (fst (each_file E source_lang files st)) = length files"
    by (rule each_file_length)
  show "\<forall>k < length files.
      fst (each_file E source_lang files st) ! k
        = fst (translate_single_pdf E (files ! k) None source_lang
                (snd (each_file E source_lang (take k files) st)))"
    by (intro allI impI each_file_nth)
  show "path_exists E dir \<longrightarrow>
      batch_translate_pdfs E dir pattern source_lang st
        = (Inr (successes (fst (each_file E source_lang (glob E dir pattern) st))),
           snd (each_file E source_lang (glob E dir pattern) st))"
    by (intro impI batch_translate_each)
  show "batch_loop E source_lang files ([], []) st = ((translated, failed), st') \<longrightarrow>
      length translated + length failed = length files \<and> set failed \<subseteq> set files"
  proof
    assume "batch_loop E source_lang files ([], []) st = ((translated, failed), st')"
    from batch_loop_accounts [OF this]
    show "length translated + length failed = length files \<and> set failed \<subseteq> set files" by simp
  qed
  show "path_exists E dir \<and> glob E dir pattern = [f1, f2, f3] \<and>
    translate_single_pdf E f1 None source_lang st = (Inr o1, st1) \<and>
    translate_single_pdf E f2 None source_lang st1 = (Inl e, st2) \<and>
    translate_single_pdf E f3 None source_lang st2 = (Inr o3, st3) \<longrightarrow>
      batch_loop E source_lang [f1, f2, f3] ([], []) st = (([o1, o3], [f2]), st3) \<and>
      batch_translate_pdfs E dir pattern source_lang st = (Inr [o1, o3], st3)"
  proof
    assume a: "path_exists E dir \<and> glob E dir pattern = [f1, f2, f3] \<and>
      translate_single_pdf E f1 None source_lang st = (Inr o1, st1) \<and>
      translate_single_pdf E f2 None source_lang st1 = (Inl e, st2) \<and>
      translate_single_pdf E f3 None source_lang st2 = (Inr o3, st3)"
    then have l: "batch_loop E source_lang [f1, f2, f3] ([], []) st = (([o1, o3], [f2]), st3)"
      by simp
    with a have "batch_translate_pdfs E dir pattern source_lang st = (Inr [o1, o3], st3)"
      by (simp add: batch_translate_pdfs_def)
    with l show "batch_loop E source_lang [f1, f2, f3] ([], []) st = (([o1, o3], [f2]), st3) \<and>
        batch_translate_pdfs E dir pattern source_lang st = (Inr [o1, o3], st3)" by simp
  qed
qed

theorem batch_partial_failure_witness:
  "batch_loop three_env (U ''fi'') [U ''a.pdf'', U ''b.pdf'', U ''c.pdf''] ([], []) (0, [])
     = (([U ''out/a_translated_en.pdf'', U ''out/c_translated_en.pdf''], [U ''b.pdf'']),
        (2, [Translate (U ''Hei.'') (U ''fi'') (U ''en''),
             WritePdf (U ''out/a_translated_en.pdf'') (U ''Translated: a.pdf'') [U ''Hello.''],
             Translate (U ''Hei.'') (U ''fi'') (U ''en''),
             WritePdf (U ''out/c_translated_en.pdf'') (U ''Translated: c.pdf'') [U ''Hello.'']])) \<and>
   fst (batch_translate_pdfs three_env (U ''in'') (U ''*.pdf'') (U ''fi'') (0, []))
     = Inr [U ''out/a_translated_en.pdf'', U ''out/c_translated_en.pdf'']"
proof -
  let ?t1 = "[Translate (U ''Hei.'') (U ''fi'') (U ''en''),
     WritePdf (U ''out/a_translated_en.pdf'') (U ''Translated: a.pdf'') [U ''Hello.'']]"
  let ?t3 = "?t1 @ [Translate (U ''Hei.'') (U ''fi'') (U ''en''),
     WritePdf (U ''out/c_translated_en.pdf'') (U ''Translated: c.pdf'') [U ''Hello.'']]"
  have p: "path_exists three_env (U ''in'')"
    and g: "glob three_env (U ''in'') (U ''*.pdf'') = [U ''a.pdf'', U ''b.pdf'', U ''c.pdf'']"
    by (simp_all add: three_env_def)
  have a: "translate_single_pdf three_env (U ''a.pdf'') None (U ''fi'') (0, [])
             = (Inr (U ''out/a_translated_en.pdf''), (1, ?t1))"
    using three_a [of 0 "[]"] by simp
  have b: "translate_single_pdf three_env (U ''b.pdf'') None (U ''fi'') (1, ?t1)
             = (Inl ReadError, (1, ?t1))"
    by (rule three_b)
  have c: "translate_single_pdf three_env (U ''c.pdf'') None (U ''fi'') (1, ?t1)
             = (Inr (U ''out/c_translated_en.pdf''), (2, ?t3))"
    using three_c [of 1 ?t1] by simp
  from batch_partial_failure [where E = three_env and source_lang = "U ''fi''" and files = "[]"
      and st = "(0, [])" and dir = "U ''in''" and pattern = "U ''*.pdf''"
      and ?f1.0 = "U ''a.pdf''" and ?f2.0 = "U ''b.pdf''" and ?f3.0 = "U ''c.pdf''"
      and ?o1.0 = "U ''out/a_translated_en.pdf''" and ?st1.0 = "(1, ?t1)" and e = ReadError
      and ?st2.0 = "(1, ?t1)" and ?o3.0 = "U ''out/c_translated_en.pdf''" and ?st3.0 = "(2, ?t3)"]
    p g a b c
  show ?thesis by simp
qed

text \<open>
  C8, as stated, has the value returned hold a result or an error for every file. With
  three files matched and the second unreadable, the value returned has two entries, both
  output paths.
\<close>

theorem batch_return_shape_counterexample:
  "fst (batch_translate_pdfs three_env (U ''in'') (U ''*.pdf'') (U ''fi'') (0, []))
     = Inr [U ''out/a_translated_en.pdf'', U ''out/c_translated_en.pdf''] \<and>
   length (glob three_env (U ''in'') (U ''*.pdf'')) = 3"
proof -
  have "batch_loop three_env (U ''fi'') [U ''a.pdf'', U ''b.pdf'', U ''c.pdf''] ([], []) (0, [])
     = (([U ''out/a_translated_en.pdf'', U ''out/c_translated_en.pdf''], [U ''b.pdf'']),
        (2, [Translate (U ''Hei.'') (U ''fi'') (U ''en''),
             WritePdf (U ''out/a_translated_en.pdf'') (U ''Translated: a.pdf'') [U ''Hello.''],
             Translate (U ''Hei.'') (U ''fi'') (U ''en''),
             WritePdf (U ''out/c_translated_en.pdf'') (U ''Translated: c.pdf'') [U ''Hello.'']]))"
    by (simp add: three_a three_b three_c)
  then show ?thesis
    by (simp add: batch_translate_pdfs_def three_env_def)
qed

subsection \<open>Sentences and chunks\<close>

lemma star_chr_Nil: "m (Star (Chr P)) (prev, [], i, c) = [(prev, [], i, c)]"
  by simp

lemma star_chr_Cons:
  "m (Star (Chr P)) (prev, x # xs, i, c) =
     (if P x then m (Star (Chr P)) (Some x, xs, Suc i, c) @ [(prev, x # xs, i, c)]
      else [(prev, x # xs, i, c)])"
  by (simp add: advanced_def)

lemma star_chr_hd:
  "\<exists>p rest. m (Star (Chr P)) (prev, cs, i, c)
     = (p, dropWhile P cs, i + length (takeWhile P cs), c) # rest \<and>
     (p = prev \<or> (\<exists>q. p = Some q \<and> P q))"
proof (induction cs arbitrary: prev i)
  case Nil
  show ?case by simp
next
  case (Cons x xs)
  show ?case
  proof (cases "P x")
    case True
    from Cons.IH [of "Some x" "Suc i"] obtain p rest where
      "m (Star (Chr P)) (Some x, xs, Suc i, c)
         = (p, dropWhile P xs, Suc i + length (takeWhile P xs), c) # rest"
      "p = Some x \<or> (\<exists>q. p = Some q \<and> P q)" by blast
    with True show ?thesis by (simp only: star_chr_Cons) auto
  next
    case False
    then show ?thesis by (simp only: star_chr_Cons) simp
  qed
qed

lemma sentence_re_match:
  "after_end prev \<Longrightarrow> is_space x \<Longrightarrow>
     \<exists>p rest. m sentence_re (prev, x # xs, i, c)
       = (Some p, dropWhile is_space xs, Suc i + length (takeWhile is_space xs), c) # rest \<and>
       is_space p"
proof -
  assume a: "after_end prev" "is_space x"
  then obtain q where q: "prev = Some q" "sentence_end q" by (cases prev) auto
  from star_chr_hd [of is_space "Some x" xs "Suc i" c] obtain p rest where
    "m (Star (Chr is_space)) (Some x, xs, Suc i, c)
       = (p, dropWhile is_space xs, Suc i + length (takeWhile is_space xs), c) # rest"
    "p = Some x \<or> (\<exists>q. p = Some q \<and> is_space q)" by blast
  with a q show ?thesis
    by (auto simp add: sentence_re_def Plus_def simp del: m.simps(5))
qed

lemma sentence_re_no_match:
  "\<not> (after_end prev \<and> (\<exists>x xs. cs = x # xs \<and> is_space x)) \<Longrightarrow> m sentence_re (prev, cs, i, c) = []"
  by (cases prev; cases cs) (auto simp: sentence_re_def Plus_def simp del: m.simps(5))


lemma space_not_end: "is_space p \<Longrightarrow> \<not> sentence_end p"
  by (auto simp: is_space_def sentence_end_def)

lemma scan_sentences:
  "text = pre @ cs \<Longrightarrow> length pre = i \<Longrightarrow> from \<le> i \<Longrightarrow>
     pieces text from (scan sentence_re (prev, cs, i, c) False)
       = sentences (after_end prev) (drop from pre) cs"
proof (induction cs arbitrary: pre i "from" prev c rule: length_induct)
  case (1 cs)
  show ?case
  proof (cases "after_end prev \<and> (\<exists>x xs. cs = x # xs \<and> is_space x)")
    case True
    then obtain x xs where cs: "cs = x # xs" "is_space x" "after_end prev" by blast
    let ?n = "Suc i + length (takeWhile is_space xs)"
    from sentence_re_match [OF cs(3,2), of xs i c] obtain p rest where
      mm: "m sentence_re (prev, x # xs, i, c) = (Some p, dropWhile is_space xs, ?n, c) # rest"
        and p: "is_space p" by blast
    have adv: "advanced (prev, x # xs, i, c) (Some p, dropWhile is_space xs, ?n, c)"
      by (simp add: advanced_def length_dropWhile_le less_Suc_eq_le)
    have sc: "scan sentence_re (prev, cs, i, c) False
        = (i, ?n, c) # scan sentence_re (Some p, dropWhile is_space xs, ?n, []) False"
      using mm adv cs(1) by (subst scan.simps) simp
    let ?pre = "pre @ x # takeWhile is_space xs"
    have t: "text = ?pre @ dropWhile is_space xs"
      using 1(2) cs(1) by simp
    have l: "length (dropWhile is_space xs) < length cs"
      using cs(1) by (simp add: length_dropWhile_le less_Suc_eq_le)
    have "pieces text ?n (scan sentence_re (Some p, dropWhile is_space xs, ?n, []) False)
        = sentences (after_end (Some p)) (drop ?n ?pre) (dropWhile is_space xs)"
      using 1(1) l t 1(3) by (intro "1.IH" [rule_format]) auto
    moreover have "drop ?n ?pre = []" using 1(3) by simp
    moreover have "slice text from i = drop from pre"
      using 1(2,3,4) by (simp add: slice_def)
    ultimately show ?thesis
      using sc cs p by (simp add: space_not_end)
  next
    case False
    then have mm: "m sentence_re (prev, cs, i, c) = []"
      by (rule sentence_re_no_match)
    show ?thesis
    proof (cases cs)
      case Nil
      with mm 1(2) 1(3) 1(4) show ?thesis by (subst scan.simps) simp
    next
      case (Cons x xs)
      have sc: "scan sentence_re (prev, cs, i, c) False = scan sentence_re (Some x, xs, Suc i, c) False"
        using mm Cons by (subst scan.simps) simp
      have "pieces text from (scan sentence_re (Some x, xs, Suc i, c) False)
          = sentences (after_end (Some x)) (drop from (pre @ [x])) xs"
        using 1(2,3,4) Cons by (intro "1.IH" [rule_format]) auto
      with sc Cons False 1(3,4) show ?thesis by auto
    qed
  qed
qed

lemma re_split_sentences: "re_split sentence_re text = sentences False [] text"
  using scan_sentences [of "text" "[]" "text" 0 0 None "[]"]
  by (simp add: re_split_def finditer_def)


















subsection \<open>Overlapping names in the core module\<close>

text \<open>
  C6. The claim has an overlapping later match discarded. \<^verbatim>\<open>preserve_names_and_entities\<close> of
  the core module has no such check: in ``Dr. Jane Doe'' the first pattern finds ``Jane
  Doe'' and the fourth finds ``Dr. Jane Doe'', both are kept, and the characters 4 to 11
  are covered twice. The second replacement is then made at offsets that the first has
  moved, and restoring the names gives ``Dr. Jane Doe__''.
\<close>

theorem name_overlap_kept:
  "name_matches (U ''Dr. Jane Doe'') = [(4, 12, U ''Jane Doe''), (0, 12, U ''Dr. Jane Doe'')] \<and>
   preserve_names_and_entities (U ''Dr. Jane Doe'')
     = (U ''__NAME_1____'',
        [(U ''__NAME_0__'', U ''Jane Doe''), (U ''__NAME_1__'', U ''Dr. Jane Doe'')]) \<and>
   restore_names_and_entities (U ''__NAME_1____'')
        [(U ''__NAME_0__'', U ''Jane Doe''), (U ''__NAME_1__'', U ''Dr. Jane Doe'')]
     = U ''Dr. Jane Doe__''"
  by (simp add: regex_eval core_eval)

subsection \<open>A preserved span with a line break\<close>

text \<open>
  C5. ``Acme'', a line break, ``Inc'' is preserved as a company name. When translation
  strips the zero-width separators, counter and text are left adjacent, yet nothing is
  restored: \<^verbatim>\<open>.+?\<close> does not match a line break, so the counter and the text cannot be
  read off the placeholder and no candidate is tried.
\<close>

theorem line_break_not_recovered:
  "preserve_proper_nouns [65, 99, 109, 101, 10, 73, 110, 99]
     = ([8203, 48, 8204, 65, 99, 109, 101, 10, 73, 110, 99, 8205],
        [([8203, 48, 8204, 65, 99, 109, 101, 10, 73, 110, 99, 8205],
          [65, 99, 109, 101, 10, 73, 110, 99])]) \<and>
   patterns_to_try [8203, 48, 8204, 65, 99, 109, 101, 10, 73, 110, 99, 8205] = [] \<and>
   restore_proper_nouns [48, 65, 99, 109, 101, 10, 73, 110, 99]
        [([8203, 48, 8204, 65, 99, 109, 101, 10, 73, 110, 99, 8205],
          [65, 99, 109, 101, 10, 73, 110, 99])]
     = [48, 65, 99, 109, 101, 10, 73, 110, 99]"
  by (simp add: regex_eval webapp_eval)

text \<open>With a space in place of the line break the original text is recovered.\<close>

lemma same_line_recovered:
  "preserve_proper_nouns (U ''Acme Inc'')
     = ([8203, 48, 8204] @ U ''Acme Inc'' @ [8205],
        [([8203, 48, 8204] @ U ''Acme Inc'' @ [8205], U ''Acme Inc'')]) \<and>
   restore_proper_nouns (U ''0Acme Inc'') [([8203, 48, 8204] @ U ''Acme Inc'' @ [8205], U ''Acme Inc'')]
     = U ''Acme Inc''"
  by (simp add: regex_eval webapp_eval)

subsection \<open>The size of a chunk\<close>

lemma chunk_over_size:
  "re_split sentence_re (U ''ab. cd'') = [U ''ab.'', U ''cd''] \<and>
   split_chunks 5 (U ''ab. cd'') = [U ''ab. cd''] \<and> length (U ''ab. cd'') = 6"
  by (simp add: regex_eval core_eval)


lemma sentences_run:
  "list_all (\<lambda>c. \<not> is_space c) xs \<Longrightarrow> xs \<noteq> [] \<Longrightarrow>
     sentences e acc (xs @ rest) = sentences (sentence_end (last xs)) (acc @ xs) rest"
proof (induction xs arbitrary: e acc)
  case Nil
  then show ?case by simp
next
  case (Cons x xs)
  then show ?case by (cases "xs = []") auto
qed

lemma strip_id:
  "s \<noteq> [] \<Longrightarrow> \<not> is_space (hd s) \<Longrightarrow> \<not> is_space (last s) \<Longrightarrow> py_strip s = s"
proof -
  assume a: "s \<noteq> []" "\<not> is_space (hd s)" "\<not> is_space (last s)"
  then have "dropWhile is_space s = s" by (cases s) auto
  moreover have "dropWhile is_space (rev s) = rev s"
    using a by (cases "rev s") (auto simp: last_rev [symmetric] hd_rev)
  ultimately show ?thesis by (simp add: py_strip_def)
qed

text \<open>
  C3. With the size of 3000 the module sets, a sentence of 1500 characters followed by a
  space and a second sentence of 1500 characters becomes one chunk of 3001 characters that
  holds two sentences: the test of the loop adds the lengths of the current chunk and of
  the sentence and leaves out the space that joins them.
\<close>

theorem default_chunk_over_size:
  "re_split sentence_re (replicate 1499 97 @ [46, 32] @ replicate 1500 98)
     = [replicate 1499 97 @ [46], replicate 1500 98] \<and>
   split_chunks 3000 (replicate 1499 97 @ [46, 32] @ replicate 1500 98)
     = [replicate 1499 97 @ [46, 32] @ replicate 1500 98] \<and>
   length (replicate 1499 97 @ [46, 32] @ replicate 1500 98) = 3001"
proof -
  let ?a = "replicate 1499 (97 :: nat) @ [46]"
  let ?b = "replicate 1500 (98 :: nat)"
  have na: "list_all (\<lambda>c. \<not> is_space c) ?a" and nb: "list_all (\<lambda>c. \<not> is_space c) ?b"
    by (simp_all add: list_all_iff is_space_def)
  have "sentences False [] (?a @ 32 # ?b) = sentences (sentence_end (last ?a)) ([] @ ?a) (32 # ?b)"
    using na by (intro sentences_run) simp_all
  also have "\<dots> = ?a # sentences False [] ?b"
    by (simp add: sentence_end_def is_space_def dropWhile_replicate)
  also have "sentences False [] ?b = sentences (sentence_end (last ?b)) ([] @ ?b) []"
    using sentences_run [OF nb, of False "[]" "[]"] by simp
  finally have s: "re_split sentence_re (replicate 1499 97 @ 46 # 32 # ?b) = [?a, ?b]"
    by (simp add: re_split_sentences)
  have "py_strip (?a @ 32 # ?b) = ?a @ 32 # ?b"
    by (intro strip_id) (simp_all add: is_space_def)
  then have "split_chunks 3000 (replicate 1499 97 @ 46 # 32 # ?b) = [?a @ 32 # ?b]"
    by (simp add: split_chunks_def s chunk_step_def U_def)
  with s show ?thesis by simp
qed


text \<open>
  What the loop does give: a chunk is at most one character longer than the size, or it is
  a single sentence, stripped.
\<close>

lemma strip_length: "length (py_strip s) \<le> length s"
proof -
  have "length (py_strip s) \<le> length (dropWhile is_space s)"
    unfolding py_strip_def
    using length_dropWhile_le [of is_space "rev (dropWhile is_space s)"] by simp
  also have "\<dots> \<le> length s" by (rule length_dropWhile_le)
  finally show ?thesis .
qed

lemma chunk_fold_bound:
  assumes "set ss' \<subseteq> set ss"
    and "\<forall>c \<in> set (fst st). length c \<le> Suc n \<or> (\<exists>x \<in> set ss. c = py_strip x)"
    and "length (snd st) \<le> Suc n \<or> snd st \<in> set ss"
  shows "(\<forall>c \<in> set (fst (foldl (chunk_step n) st ss')).
            length c \<le> Suc n \<or> (\<exists>x \<in> set ss. c = py_strip x)) \<and>
         (length (snd (foldl (chunk_step n) st ss')) \<le> Suc n \<or>
          snd (foldl (chunk_step n) st ss') \<in> set ss)"
  using assms
proof (induction ss' arbitrary: st)
  case Nil
  then show ?case by simp
next
  case (Cons x xs)
  obtain chunks cur where st: "st = (chunks, cur)" by (cases st)
  have c: "length (py_strip cur) \<le> Suc n \<or> (\<exists>x \<in> set ss. py_strip cur = py_strip x)"
    using Cons.prems(3) st strip_length [of cur] by auto
  have "\<forall>c \<in> set (fst (chunk_step n st x)). length c \<le> Suc n \<or> (\<exists>x \<in> set ss. c = py_strip x)"
    using Cons.prems(2) st c by (auto simp: chunk_step_def)
  moreover have "length (snd (chunk_step n st x)) \<le> Suc n \<or> snd (chunk_step n st x) \<in> set ss"
    using Cons.prems(1) st by (auto simp: chunk_step_def U_def)
  moreover have "set xs \<subseteq> set ss" using Cons.prems(1) by simp
  ultimately show ?case using Cons.IH [of "chunk_step n st x"] by simp
qed

lemma chunk_size_within_one:
  "c \<in> set (split_chunks n s) \<Longrightarrow>
     length c \<le> Suc n \<or> (\<exists>x \<in> set (re_split sentence_re s). c = py_strip x)"
proof -
  assume a: "c \<in> set (split_chunks n s)"
  let ?ss = "re_split sentence_re s"
  obtain chunks cur where f: "foldl (chunk_step n) ([], []) ?ss = (chunks, cur)"
    by (cases "foldl (chunk_step n) ([], []) ?ss")
  from chunk_fold_bound [of ?ss ?ss "([], [])" n] f
  have b: "\<forall>c \<in> set chunks. length c \<le> Suc n \<or> (\<exists>x \<in> set ?ss. c = py_strip x)"
    and d: "length cur \<le> Suc n \<or> cur \<in> set ?ss" by auto
  from d strip_length [of cur]
  have "length (py_strip cur) \<le> Suc n \<or> (\<exists>x \<in> set ?ss. py_strip cur = py_strip x)" by auto
  with a b f show ?thesis by (auto simp: split_chunks_def split: if_splits)
qed

subsection \<open>Placeholders\<close>

lemma str_nat_small: "n < 10 \<Longrightarrow> str_nat n = [48 + n]"
  by (subst str_nat.simps) simp

lemma str_nat_big: "\<not> n < 10 \<Longrightarrow> str_nat n = str_nat (n div 10) @ [48 + n mod 10]"
  by (subst str_nat.simps) simp

lemma str_nat_digits: "x \<in> set (str_nat n) \<Longrightarrow> 48 \<le> x \<and> x \<le> 57"
proof (induction n arbitrary: x rule: str_nat.induct)
  case (1 n)
  show ?case
  proof (cases "n < 10")
    case True
    from 1(2) have "x = 48 + n" unfolding str_nat_small [OF True] by simp
    with True show ?thesis by simp
  next
    case False
    from 1(2) have "x \<in> set (str_nat (n div 10) @ [48 + n mod 10])"
      unfolding str_nat_big [OF False] .
    then have "x \<in> set (str_nat (n div 10)) \<or> x = 48 + n mod 10" by auto
    then show ?thesis
    proof
      assume "x \<in> set (str_nat (n div 10))"
      with False show ?thesis by (intro 1(1))
    next
      assume "x = 48 + n mod 10"
      moreover have "n mod 10 < 10" by simp
      ultimately show ?thesis by linarith
    qed
  qed
qed

lemma str_nat_nonempty: "str_nat n \<noteq> []"
proof (cases "n < 10")
  case True
  then show ?thesis unfolding str_nat_small [OF True] by simp
next
  case False
  then show ?thesis unfolding str_nat_big [OF False] by simp
qed

lemma str_nat_inj: "str_nat i = str_nat j \<Longrightarrow> i = j"
proof (induction i arbitrary: j rule: str_nat.induct)
  case (1 i)
  show ?case
  proof (cases "i < 10")
    case True
    note i = this
    show ?thesis
    proof (cases "j < 10")
      case True
      from 1(2) have "[48 + i] = [48 + j]"
        unfolding str_nat_small [OF i] str_nat_small [OF True] .
      then show ?thesis by simp
    next
      case False
      from 1(2) have "[48 + i] = str_nat (j div 10) @ [48 + j mod 10]"
        unfolding str_nat_small [OF i] str_nat_big [OF False] .
      with str_nat_nonempty [of "j div 10"] show ?thesis by (cases "str_nat (j div 10)") auto
    qed
  next
    case False
    note i = this
    show ?thesis
    proof (cases "j < 10")
      case True
      from 1(2) have "str_nat (i div 10) @ [48 + i mod 10] = [48 + j]"
        unfolding str_nat_small [OF True] str_nat_big [OF i] .
      with str_nat_nonempty [of "i div 10"] show ?thesis by (cases "str_nat (i div 10)") auto
    next
      case False
      from 1(2) have "str_nat (i div 10) @ [48 + i mod 10] = str_nat (j div 10) @ [48 + j mod 10]"
        unfolding str_nat_big [OF i] str_nat_big [OF False] .
      then have e: "str_nat (i div 10) = str_nat (j div 10)" "i mod 10 = j mod 10" by simp_all
      from 1(1) [OF i e(1)] have d: "i div 10 = j div 10" .
      have "i = i div 10 * 10 + i mod 10" by simp
      also have "\<dots> = j div 10 * 10 + j mod 10" by (simp only: d e(2))
      also have "\<dots> = j" by simp
      finally show ?thesis .
    qed
  qed
qed

lemma prefix_terminated:
  "x \<notin> set a \<Longrightarrow> x \<notin> set b \<Longrightarrow> prefix (a @ [x]) (b @ x # r) \<Longrightarrow> a = b"
proof (induction a arbitrary: b)
  case Nil
  then show ?case by (cases b) auto
next
  case (Cons y a)
  then show ?case by (cases b) auto
qed

lemma zw_not_digit: "ZWSP \<notin> set (str_nat n)" "ZWNJ \<notin> set (str_nat n)"
  using str_nat_digits [of ZWSP n] str_nat_digits [of ZWNJ n]
  by (auto simp: ZWSP_def ZWNJ_def)

lemma placeholder_prefix:
  assumes "prefix (placeholder c t) (placeholder i t' @ Z)"
  shows "c = i"
proof -
  from assms have "prefix (str_nat c @ ZWNJ # t @ [ZWJ]) (str_nat i @ ZWNJ # t' @ [ZWJ] @ Z)"
    by (simp add: placeholder_def)
  then have "prefix ((str_nat c @ [ZWNJ]) @ (t @ [ZWJ])) (str_nat i @ ZWNJ # t' @ [ZWJ] @ Z)"
    by simp
  then have "prefix (str_nat c @ [ZWNJ]) (str_nat i @ ZWNJ # t' @ [ZWJ] @ Z)"
    by (rule append_prefixD)
  then have "str_nat c = str_nat i"
    by (intro prefix_terminated [of ZWNJ]) (simp_all add: zw_not_digit)
  then show ?thesis by (rule str_nat_inj)
qed

lemma placeholder_inj: "placeholder i t = placeholder j t' \<Longrightarrow> i = j"
  using placeholder_prefix [of i t j t' "[]"] by simp

lemma placeholder_nonempty: "placeholder c t \<noteq> []"
  by (simp add: placeholder_def)

lemma replace_absent: "old \<noteq> [] \<Longrightarrow> \<not> py_in old s \<Longrightarrow> py_replace s old new = s"
proof (induction s)
  case Nil
  then show ?case by (subst py_replace.simps) simp
next
  case (Cons x s)
  then show ?case by (subst py_replace.simps) simp
qed

lemma replace_first:
  "old \<noteq> [] \<Longrightarrow> (\<And>V. suffix V A \<Longrightarrow> V \<noteq> [] \<Longrightarrow> \<not> prefix old (V @ old @ B)) \<Longrightarrow>
     py_replace (A @ old @ B) old new = A @ new @ py_replace B old new"
proof (induction A)
  case Nil
  then show ?case by (subst py_replace.simps) simp
next
  case (Cons x A)
  have "\<not> prefix old ((x # A) @ old @ B)"
    by (rule Cons.prems(2)) simp_all
  moreover have "py_replace (A @ old @ B) old new = A @ new @ py_replace B old new"
    using Cons.prems by (intro Cons.IH) (simp_all add: suffix_ConsI)
  ultimately show ?case using Cons.prems(1) by (subst py_replace.simps) simp
qed

lemma exact_step_replace: "old \<noteq> [] \<Longrightarrow> exact_step s (old, new) = py_replace s old new"
  by (simp add: exact_step_def replace_absent)

lemma clean_no_zwsp: "ZWSP \<notin> set A \<Longrightarrow> clean c A"
proof (unfold clean_def, intro allI impI notI)
  fix V t Z
  assume a: "ZWSP \<notin> set A" "suffix V A \<and> V \<noteq> []" "prefix (placeholder c t) (V @ Z)"
  then obtain v vs where v: "V = v # vs" by (cases V) auto
  with a(3) have "v = ZWSP" by (simp add: placeholder_def)
  moreover from a(2) v have "v \<in> set A" by (auto simp: suffix_def)
  ultimately show False using a(1) by simp
qed

lemma clean_append: "clean c A \<Longrightarrow> clean c B \<Longrightarrow> clean c (A @ B)"
proof (unfold clean_def, intro allI impI)
  fix V t Z
  assume a: "\<forall>V t Z. suffix V A \<and> V \<noteq> [] \<longrightarrow> \<not> prefix (placeholder c t) (V @ Z)"
    and b: "\<forall>V t Z. suffix V B \<and> V \<noteq> [] \<longrightarrow> \<not> prefix (placeholder c t) (V @ Z)"
    and v: "suffix V (A @ B) \<and> V \<noteq> []"
  from v have "suffix V B \<or> (\<exists>V1. V = V1 @ B \<and> suffix V1 A)"
    by (simp only: suffix_append)
  then have "suffix V B \<or> (\<exists>V1. suffix V1 A \<and> V = V1 @ B)"
    by blast
  then show "\<not> prefix (placeholder c t) (V @ Z)"
  proof
    assume "suffix V B"
    with b v show ?thesis by blast
  next
    assume "\<exists>V1. suffix V1 A \<and> V = V1 @ B"
    then obtain V1 where v1: "suffix V1 A" "V = V1 @ B" by blast
    show ?thesis
    proof (cases "V1 = []")
      case True
      with v1 v b show ?thesis by (metis append_Nil suffix_order.order_refl)
    next
      case False
      with a v1(1) have "\<not> prefix (placeholder c t) (V1 @ (B @ Z))" by blast
      with v1(2) show ?thesis by simp
    qed
  qed
qed

lemma clean_placeholder:
  assumes "i \<noteq> c" "ZWSP \<notin> set t'"
  shows "clean c (placeholder i t')"
proof (unfold clean_def, intro allI impI)
  fix V t Z
  assume v: "suffix V (placeholder i t') \<and> V \<noteq> []"
  let ?tail = "str_nat i @ ZWNJ # t' @ [ZWJ]"
  from v have "V = placeholder i t' \<or> suffix V ?tail"
    by (auto simp: placeholder_def suffix_Cons)
  then show "\<not> prefix (placeholder c t) (V @ Z)"
  proof
    assume "V = placeholder i t'"
    with assms(1) placeholder_prefix [of c t i t' Z] show ?thesis by auto
  next
    assume s: "suffix V ?tail"
    have "ZWSP \<notin> set ?tail"
      using assms(2) zw_not_digit(1) [of i] by (simp add: ZWSP_def ZWNJ_def ZWJ_def)
    then have "clean c ?tail" by (rule clean_no_zwsp)
    with s v show ?thesis unfolding clean_def by blast
  qed
qed

lemma not_in_no_zwsp: "ZWSP \<notin> set B \<Longrightarrow> \<not> py_in (placeholder c t) B"
  by (induction B) (auto simp: placeholder_def)

lemma replace_placeholder:
  assumes "clean c A" "ZWSP \<notin> set B"
  shows "py_replace (A @ placeholder c t @ B) (placeholder c t) new = A @ new @ B"
proof -
  have "py_replace (A @ placeholder c t @ B) (placeholder c t) new
      = A @ new @ py_replace B (placeholder c t) new"
  proof (rule replace_first)
    show "placeholder c t \<noteq> []" by (rule placeholder_nonempty)
    fix V assume "suffix V A" "V \<noteq> []"
    with assms(1) show "\<not> prefix (placeholder c t) (V @ placeholder c t @ B)"
      unfolding clean_def by blast
  qed
  moreover have "py_replace B (placeholder c t) new = B"
    using assms(2) by (intro replace_absent placeholder_nonempty not_in_no_zwsp)
  ultimately show ?thesis by simp
qed

end
